theory Spec2Isabelle
  imports Complex_Main
begin

section \<open>Numbers, errors and drawn elements\<close>

text \<open>
  The package computes with JavaScript numbers. Every number of the layout engine that the
  properties below talk about is a small dyadic rational (a beat count is a multiple of one
  quarter of a beat, a cursor is such a multiple of an integral spacing), on which the
  arithmetic of doubles is exact; they are modelled as \<^typ>\<open>rat\<close>.
\<close>

definition js_trunc :: "rat \<Rightarrow> int" where
  "js_trunc x = (if 0 \<le> x then \<lfloor>x\<rfloor> else \<lceil>x\<rceil>)"

text \<open>The remainder operator \<^verbatim>\<open>a % b\<close>: the sign of the dividend, magnitude below the divisor.\<close>

definition js_mod :: "rat \<Rightarrow> rat \<Rightarrow> rat" where
  "js_mod a b = a - b * of_int (js_trunc (a / b))"

text \<open>\<^verbatim>\<open>Math.round\<close>: the nearest integer, a tie going up.\<close>

definition Math_round :: "rat \<Rightarrow> rat" where
  "Math_round x = of_int \<lfloor>x + 1 / 2\<rfloor>"

text \<open>
  The error taxonomy. Every \<^verbatim>\<open>throw new Error(...)\<close> of the source is one of the first
  five; \<open>TypeError\<close> is what the JavaScript runtime raises when a property of
  \<^verbatim>\<open>undefined\<close> is read.
\<close>

datatype error = ParseError | ConfigError | BoundsError | MaxBeatError | StateError | TypeError

datatype Durations = W | H | Q | E | S

datatype GlyphNames =
    TIME_4 | TIME_3
  | CLEF_TREBLE | CLEF_BASS | CLEF_ALTO
  | NOTE_HEAD_WHOLE | NOTE_HEAD_HALF | NOTE_HEAD_QUARTER | EIGHTH_NOTE | EIGHTH_NOTE_FLIPPED
  | REST_WHOLE | REST_HALF | REST_QUARTER | REST_EIGHTH
  | ACCIDENTAL_SHARP | ACCIDENTAL_FLAT | ACCIDENTAL_NATURAL
  | ACCIDENTAL_DOUBLE_SHARP | ACCIDENTAL_DOUBLE_FLAT

text \<open>
  An \<^verbatim>\<open>SVGGElement\<close> has a class, a \<^verbatim>\<open>translate(x, y)\<close> when one was set, and
  children: a glyph reference (a \<^verbatim>\<open>use\<close> element, with the x of its own
  \<^verbatim>\<open>transform\<close> when it has one), a line, a rectangle (width, height, x, y) or a nested
  group.
\<close>

datatype svg_child =
    Use GlyphNames "rat option"
  | Line rat rat rat rat
  | Rect rat rat rat rat
  | Group SVGGElement
and SVGGElement =
    SVGGElement (g_class: string) (g_translate: "(rat \<times> rat) option") (g_children: "svg_child list")

text \<open>
  Modelled from the spec: the drawing collaborator \<^verbatim>\<open>SVGRenderer\<close> is not among the
  sources. \<^verbatim>\<open>createGroup(tag)\<close> gives a fresh, empty, detached group; \<^verbatim>\<open>drawGlyph\<close>,
  \<^verbatim>\<open>drawLine\<close> and \<^verbatim>\<open>drawRect\<close> append one child to the group they are given, a
  glyph with the x offset it was given, if any.
\<close>

definition createGroup :: "string \<Rightarrow> SVGGElement" where
  "createGroup tag = SVGGElement tag None []"

definition appendChild :: "svg_child \<Rightarrow> SVGGElement \<Rightarrow> SVGGElement" where
  "appendChild c g = SVGGElement (g_class g) (g_translate g) (g_children g @ [c])"

definition drawGlyph :: "GlyphNames \<Rightarrow> rat option \<Rightarrow> SVGGElement \<Rightarrow> SVGGElement" where
  "drawGlyph glyph xOffset g = appendChild (Use glyph xOffset) g"

definition drawLine :: "rat \<Rightarrow> rat \<Rightarrow> rat \<Rightarrow> rat \<Rightarrow> SVGGElement \<Rightarrow> SVGGElement" where
  "drawLine x1 y1 x2 y2 g = appendChild (Line x1 y1 x2 y2) g"

definition drawRect :: "rat \<Rightarrow> rat \<Rightarrow> rat \<Rightarrow> rat \<Rightarrow> SVGGElement \<Rightarrow> SVGGElement" where
  "drawRect w h x y g = appendChild (Rect w h x y) g"

text \<open>\<^verbatim>\<open>g.setAttribute("transform", `translate(${x}, ${y})`)\<close>.\<close>

definition setTranslate :: "rat \<Rightarrow> rat \<Rightarrow> SVGGElement \<Rightarrow> SVGGElement" where
  "setTranslate x y g = SVGGElement (g_class g) (Some (x, y)) (g_children g)"

text \<open>
  The constants of \<^verbatim>\<open>constants.ts\<close>, which is not among the sources, are parameters of
  the model. Only the table of beat values is fixed, as the spec gives it.
\<close>

record constants =
  NOTE_LAYER_START_X :: rat
  NOTE_SPACING :: rat
  HALF_NOTEHEAD_WIDTH :: rat
  NOTEHEAD_STEM_HEIGHT :: rat
  ACCIDENTAL_OFFSET_X :: rat
  DOUBLE_SHARP_ACCIDENTAL_OFFSET_X :: rat
  DOUBLE_FLAT_ACCIDENTAL_OFFSET_X :: rat
  CHORD_MAX_CONSECUTIVE_ACCIDENTALS :: rat
  STAFF_LINE_SPACING :: rat

text \<open>
  Modelled from the spec: \<^verbatim>\<open>durationBeatValueMap\<close> of \<^verbatim>\<open>constants.ts\<close>, the beat value
  of a duration in quarter-note units: whole 4, half 2, quarter 1, eighth 0.5,
  sixteenth 0.25.
\<close>

fun durationBeatValueMap :: "Durations \<Rightarrow> rat" where
  "durationBeatValueMap W = 4"
| "durationBeatValueMap H = 2"
| "durationBeatValueMap Q = 1"
| "durationBeatValueMap E = 1 / 2"
| "durationBeatValueMap S = 1 / 4"

text \<open>
  Modelled from the spec: \<^verbatim>\<open>parseDurationNoteString\<close> of \<^verbatim>\<open>helpers/notehelpers.ts\<close>,
  the duration-only grammar of the rhythm staff: one of \<^verbatim>\<open>w\<close>, \<^verbatim>\<open>h\<close>, \<^verbatim>\<open>q\<close>,
  \<^verbatim>\<open>e\<close>; anything else, the sixteenth's \<^verbatim>\<open>s\<close> included, is a parse error.
\<close>

definition parseDurationNoteString :: "string \<Rightarrow> error + Durations" where
  "parseDurationNoteString str =
     (if str = ''w'' then Inr W
      else if str = ''h'' then Inr H
      else if str = ''q'' then Inr Q
      else if str = ''e'' then Inr E
      else Inl ParseError)"

section \<open>The rhythm staff\<close>

definition BAR_SPACING :: rat where
  "BAR_SPACING = 12"

definition BEAM_LINE_HEIGHT :: rat where
  "BEAM_LINE_HEIGHT = 4"

definition BEAM_LINE_Y_OFFSET :: rat where
  "BEAM_LINE_Y_OFFSET = 6"

definition STAFF_RIGHT_PADDING :: rat where
  "STAFF_RIGHT_PADDING = 1"

text \<open>
  The options that reach the layout state (the colours, the scale and the outer spacing only
  reach the drawing collaborator), and the state of a \<^verbatim>\<open>RhythmStaff\<close>: its fields, with the
  children of the renderer's \<^verbatim>\<open>notes\<close> layer as \<open>notesLayer\<close>. The cosmetic playhead
  (\<^verbatim>\<open>currentBeatUI...\<close>) has a state of its own and is left out.
\<close>

record RhythmStaffOptions =
  width :: rat
  topNumber :: rat
  barsCount :: rat

record RhythmStaff =
  options :: RhythmStaffOptions
  barSpacing :: rat
  quarterNoteSpacing :: rat
  noteCursorX :: rat
  noteEntries :: "SVGGElement list"
  maxBeatCount :: rat
  currentBeatCount :: rat
  notesLayer :: "SVGGElement list"

text \<open>The values of the options that a caller leaves out.\<close>

definition defaultRhythmStaffOptions :: RhythmStaffOptions where
  "defaultRhythmStaffOptions = \<lparr>width = 300, topNumber = 4, barsCount = 2\<rparr>"

text \<open>
  The constructor: the numerator must be 3 or 4 and the bar count within 1 to 3, else it
  throws; then the spacings and the beat capacity.
\<close>

definition RhythmStaff_new :: "constants \<Rightarrow> RhythmStaffOptions \<Rightarrow> error + RhythmStaff" where
  "RhythmStaff_new K opts =
     (if \<not> (topNumber opts = 3 \<or> topNumber opts = 4) then Inl ConfigError
      else if barsCount opts < 1 \<or> barsCount opts > 3 then Inl ConfigError
      else
        let notesLayerWidth0 = width opts - NOTE_LAYER_START_X K;
            notesLayerWidth1 =
              (if barsCount opts > 1 then notesLayerWidth0 - (barsCount opts - 1) * BAR_SPACING
               else notesLayerWidth0);
            notesLayerWidth = notesLayerWidth1 - STAFF_RIGHT_PADDING;
            bs = notesLayerWidth / barsCount opts
        in Inr \<lparr>options = opts,
                barSpacing = bs,
                quarterNoteSpacing = Math_round (bs / topNumber opts),
                noteCursorX = 0,
                noteEntries = [],
                maxBeatCount = barsCount opts * topNumber opts,
                currentBeatCount = 0,
                notesLayer = []\<rparr>)"

definition commitElementsToDOM :: "SVGGElement list \<Rightarrow> RhythmStaff \<Rightarrow> RhythmStaff" where
  "commitElementsToDOM gs s = s\<lparr>notesLayer := notesLayer s @ gs\<rparr>"

definition handleNewBar :: "RhythmStaff \<Rightarrow> RhythmStaff" where
  "handleNewBar s = s\<lparr>noteCursorX := noteCursorX s + BAR_SPACING\<rparr>"

definition translateGroupByDuration :: "rat \<Rightarrow> SVGGElement \<Rightarrow> RhythmStaff \<Rightarrow> rat \<times> SVGGElement" where
  "translateGroupByDuration beatValue noteGroup s =
     (quarterNoteSpacing s * beatValue, setTranslate (noteCursorX s) 0 noteGroup)"

definition drawStem :: "constants \<Rightarrow> rat \<Rightarrow> SVGGElement \<Rightarrow> SVGGElement" where
  "drawStem K xOffset noteGroup =
     drawLine (HALF_NOTEHEAD_WIDTH K + xOffset) 0 (HALF_NOTEHEAD_WIDTH K + xOffset)
       (- NOTEHEAD_STEM_HEIGHT K) noteGroup"

fun renderNote :: "constants \<Rightarrow> Durations \<Rightarrow> SVGGElement \<Rightarrow> SVGGElement" where
  "renderNote K W noteGroup = drawGlyph NOTE_HEAD_WHOLE None noteGroup"
| "renderNote K H noteGroup = drawStem K 0 (drawGlyph NOTE_HEAD_HALF None noteGroup)"
| "renderNote K Q noteGroup = drawStem K 0 (drawGlyph NOTE_HEAD_QUARTER None noteGroup)"
| "renderNote K E noteGroup = drawStem K 0 (drawGlyph EIGHTH_NOTE None noteGroup)"
| "renderNote K S noteGroup = noteGroup"

fun renderRest :: "Durations \<Rightarrow> SVGGElement \<Rightarrow> SVGGElement" where
  "renderRest W restGroup = drawGlyph REST_WHOLE None restGroup"
| "renderRest H restGroup = drawGlyph REST_HALF None restGroup"
| "renderRest Q restGroup = drawGlyph REST_QUARTER None restGroup"
| "renderRest E restGroup = drawGlyph REST_EIGHTH None restGroup"
| "renderRest S restGroup = restGroup"

definition checkAndCreateNewBar :: "RhythmStaff \<Rightarrow> RhythmStaff" where
  "checkAndCreateNewBar s =
     (let isBarFull = (currentBeatCount s > 0
                        \<and> js_mod (currentBeatCount s) (topNumber (options s)) = 0);
          isNotLastBar = (currentBeatCount s < maxBeatCount s)
      in if isBarFull \<and> isNotLastBar then handleNewBar s else s)"

text \<open>
  \<^verbatim>\<open>createRemainingRests\<close>: while beats are left, the biggest of the half, quarter and
  eighth rest whose value does not exceed them, and the eighth rest when none does.
\<close>

function createRemainingRests_loop ::
  "rat \<Rightarrow> SVGGElement list \<Rightarrow> RhythmStaff \<Rightarrow> SVGGElement list \<times> RhythmStaff" where
  "createRemainingRests_loop beatsLeft restGroups s =
     (if beatsLeft > 0 then
        let newGroup = createGroup ''rest'';
            (newGroup1, beatValue) =
              (if beatsLeft - durationBeatValueMap H \<ge> 0
                 then (drawGlyph REST_HALF None newGroup, durationBeatValueMap H)
               else if beatsLeft - durationBeatValueMap Q \<ge> 0
                 then (drawGlyph REST_QUARTER None newGroup, durationBeatValueMap Q)
               else (drawGlyph REST_EIGHTH None newGroup, durationBeatValueMap E));
            s1 = s\<lparr>currentBeatCount := currentBeatCount s + beatValue\<rparr>;
            newGroup2 = setTranslate (noteCursorX s1) 0 newGroup1;
            s2 = s1\<lparr>noteCursorX := noteCursorX s1 + beatValue * quarterNoteSpacing s1\<rparr>
        in createRemainingRests_loop (beatsLeft - beatValue) (restGroups @ [newGroup2]) s2
      else (restGroups, s))"
  by pat_completeness auto
termination
proof (relation "measure (\<lambda>(beatsLeft, restGroups, s). nat \<lceil>2 * beatsLeft\<rceil>)", goal_cases)
  case 1
  show ?case by simp
next
  case (2 beatsLeft restGroups s newGroup x y z s1 newGroup2 s2)
  from 2(1) have pos: "0 < \<lceil>2 * beatsLeft\<rceil>" by simp
  from 2(3,4) have "z = 2 \<or> z = 1 \<or> z = 1 / 2"
    by (auto split: if_splits)
  then have "2 * (beatsLeft - z) = 2 * beatsLeft - of_int 4
      \<or> 2 * (beatsLeft - z) = 2 * beatsLeft - of_int 2
      \<or> 2 * (beatsLeft - z) = 2 * beatsLeft - of_int 1"
    by auto
  then have "\<lceil>2 * (beatsLeft - z)\<rceil> < \<lceil>2 * beatsLeft\<rceil>"
    by (auto simp only: ceiling_diff_of_int)
  with pos show ?case by simp
qed

definition createRemainingRests :: "rat \<Rightarrow> RhythmStaff \<Rightarrow> SVGGElement list \<times> RhythmStaff" where
  "createRemainingRests remainingBeatsInBar s = createRemainingRests_loop remainingBeatsInBar [] s"

definition remainingBeatsInBar :: "RhythmStaff \<Rightarrow> rat" where
  "remainingBeatsInBar s =
     topNumber (options s) - js_mod (currentBeatCount s) (topNumber (options s))"

definition checkAndFillBarWithRests ::
  "rat \<Rightarrow> RhythmStaff \<Rightarrow> SVGGElement list option \<times> RhythmStaff" where
  "checkAndFillBarWithRests beatValue s =
     (if beatValue > remainingBeatsInBar s then
        let (restGroups, s1) = createRemainingRests (remainingBeatsInBar s) s
        in (Some restGroups, handleNewBar s1)
      else (None, s))"

text \<open>
  \<^verbatim>\<open>drawNote\<close>: the loop over the tokens of one call, with the groups created so far
  (\<open>noteGroups\<close>), which are committed to the layer when the loop ends and when it throws.
\<close>

fun drawNote_loop ::
  "constants \<Rightarrow> string list \<Rightarrow> SVGGElement list \<Rightarrow> RhythmStaff \<Rightarrow> (error + unit) \<times> RhythmStaff" where
  "drawNote_loop K [] noteGroups s = (Inr (), commitElementsToDOM noteGroups s)"
| "drawNote_loop K (noteString # rest) noteGroups s =
     (case parseDurationNoteString noteString of
        Inl err \<Rightarrow>
          (Inl err, if length noteGroups > 0 then commitElementsToDOM noteGroups s else s)
      | Inr durationString \<Rightarrow>
          let beatValue = durationBeatValueMap durationString in
          if currentBeatCount s \<ge> maxBeatCount s then
            (Inl MaxBeatError, if length noteGroups > 0 then commitElementsToDOM noteGroups s else s)
          else
            let s1 = checkAndCreateNewBar s;
                (restGroups, s2) = checkAndFillBarWithRests beatValue s1;
                (noteGroups1, s3) =
                  (case restGroups of
                     None \<Rightarrow> (noteGroups, s2)
                   | Some rs \<Rightarrow> (noteGroups @ rs, s2\<lparr>noteEntries := noteEntries s2 @ rs\<rparr>));
                noteGroup = createGroup ''note'';
                (cursorXIncrement, noteGroup1) = translateGroupByDuration beatValue noteGroup s3;
                s4 = s3\<lparr>noteCursorX := noteCursorX s3 + cursorXIncrement\<rparr>;
                s5 = s4\<lparr>currentBeatCount := currentBeatCount s4 + beatValue\<rparr>;
                noteGroup2 = renderNote K durationString noteGroup1;
                s6 = s5\<lparr>noteEntries := noteEntries s5 @ [noteGroup2]\<rparr>
            in drawNote_loop K rest (noteGroups1 @ [noteGroup2]) s6)"

definition drawNote :: "constants \<Rightarrow> string list \<Rightarrow> RhythmStaff \<Rightarrow> (error + unit) \<times> RhythmStaff" where
  "drawNote K notes s = drawNote_loop K notes [] s"

fun drawRest_loop ::
  "string list \<Rightarrow> SVGGElement list \<Rightarrow> RhythmStaff \<Rightarrow> (error + unit) \<times> RhythmStaff" where
  "drawRest_loop [] restGroups s = (Inr (), commitElementsToDOM restGroups s)"
| "drawRest_loop (restString # rest) restGroups s =
     (case parseDurationNoteString restString of
        Inl err \<Rightarrow>
          (Inl err, if length restGroups > 0 then commitElementsToDOM restGroups s else s)
      | Inr durationString \<Rightarrow>
          let restGroup = createGroup ''rest'';
              beatValue = durationBeatValueMap durationString;
              spacing = beatValue * quarterNoteSpacing s in
          if currentBeatCount s \<ge> maxBeatCount s then
            (Inl MaxBeatError, if length restGroups > 0 then commitElementsToDOM restGroups s else s)
          else
            let s1 = checkAndCreateNewBar s;
                (remainingGroups, s2) = checkAndFillBarWithRests beatValue s1;
                (restGroups1, s3) =
                  (case remainingGroups of
                     None \<Rightarrow> (restGroups, s2)
                   | Some rs \<Rightarrow> (restGroups @ rs, s2\<lparr>noteEntries := noteEntries s2 @ rs\<rparr>));
                restGroup1 = renderRest durationString restGroup;
                restGroup2 = setTranslate (noteCursorX s3) 0 restGroup1;
                s4 = s3\<lparr>noteCursorX := noteCursorX s3 + spacing\<rparr>;
                s5 = s4\<lparr>currentBeatCount := currentBeatCount s4 + beatValue\<rparr>;
                s6 = s5\<lparr>noteEntries := noteEntries s5 @ [restGroup2]\<rparr>
            in drawRest_loop rest (restGroups1 @ [restGroup2]) s6)"

definition drawRest :: "string list \<Rightarrow> RhythmStaff \<Rightarrow> (error + unit) \<times> RhythmStaff" where
  "drawRest rests s = drawRest_loop rests [] s"

definition renderBeamRect ::
  "constants \<Rightarrow> rat \<Rightarrow> rat \<Rightarrow> rat \<Rightarrow> SVGGElement \<Rightarrow> SVGGElement" where
  "renderBeamRect K localX spacingAmount yOffset parentGroup =
     drawRect (localX - spacingAmount) BEAM_LINE_HEIGHT (HALF_NOTEHEAD_WIDTH K)
       (- NOTEHEAD_STEM_HEIGHT K + yOffset) parentGroup"

text \<open>
  The loop of \<^verbatim>\<open>drawBeamedNotes\<close>, \<^verbatim>\<open>for (let i = 0; i < fixedNoteCount; i++)\<close>: the
  bound is a number, not necessarily whole. The loop carries the beamed group, the local x
  and the beat count.
\<close>

function drawBeamedNotes_loop ::
  "constants \<Rightarrow> rat \<Rightarrow> rat \<Rightarrow> rat \<Rightarrow> nat \<Rightarrow> SVGGElement \<times> rat \<times> RhythmStaff
     \<Rightarrow> SVGGElement \<times> rat \<times> RhythmStaff" where
  "drawBeamedNotes_loop K fixedNoteCount spacingAmount beatValue i (beamedGroup, localX, s) =
     (if of_nat i < fixedNoteCount then
        let beamedGroup1 = drawGlyph NOTE_HEAD_QUARTER (Some localX) beamedGroup;
            beamedGroup2 = drawStem K localX beamedGroup1;
            s1 = s\<lparr>currentBeatCount := currentBeatCount s + beatValue\<rparr>
        in drawBeamedNotes_loop K fixedNoteCount spacingAmount beatValue (Suc i)
             (beamedGroup2, localX + spacingAmount, s1)
      else (beamedGroup, localX, s))"
  by pat_completeness auto
termination
proof (relation "measure (\<lambda>(K, fixedNoteCount, spacingAmount, beatValue, i, st).
                    nat \<lceil>fixedNoteCount\<rceil> - i)", goal_cases)
  case 1
  show ?case by simp
next
  case (2 K fixedNoteCount spacingAmount beatValue i beamedGroup localX s x xa xb)
  from 2(1) have "int i < \<lceil>fixedNoteCount\<rceil>"
    by (simp add: less_ceiling_iff)
  then show ?case by simp
qed

text \<open>
  \<^verbatim>\<open>drawBeamedNotes(note, noteCount)\<close>. The type of \<open>note\<close> is \<^verbatim>\<open>"e" | "s"\<close>; at run
  time it is a string, and one that is not \<^verbatim>\<open>s\<close> goes through the duration parser.
\<close>

definition drawBeamedNotes ::
  "constants \<Rightarrow> string \<Rightarrow> rat \<Rightarrow> RhythmStaff \<Rightarrow> (error + unit) \<times> RhythmStaff" where
  "drawBeamedNotes K note noteCount s =
     (if noteCount < 2 then (Inl StateError, s)
      else if currentBeatCount s \<ge> maxBeatCount s then (Inl MaxBeatError, s)
      else
        case (if note = ''s'' then Inr S else parseDurationNoteString note) of
          Inl err \<Rightarrow> (Inl err, s)
        | Inr durationString \<Rightarrow>
            let s1 = checkAndCreateNewBar s;
                beatValue = durationBeatValueMap durationString;
                spacingAmount = beatValue * quarterNoteSpacing s1;
                fixedNoteCount = min noteCount (remainingBeatsInBar s1 / beatValue);
                beamedGroup = setTranslate (noteCursorX s1) 0 (createGroup ''beamed-note'');
                (beamedGroup1, localX, s2) =
                  drawBeamedNotes_loop K fixedNoteCount spacingAmount beatValue 0
                    (beamedGroup, 0, s1);
                beamedGroup2 = renderBeamRect K localX spacingAmount 0 beamedGroup1;
                beamedGroup3 =
                  (if note = ''s''
                   then renderBeamRect K localX spacingAmount BEAM_LINE_Y_OFFSET beamedGroup2
                   else beamedGroup2);
                s3 = s2\<lparr>noteCursorX := noteCursorX s2 + localX\<rparr>;
                s4 = s3\<lparr>noteEntries := noteEntries s3 @ [beamedGroup3]\<rparr>
            in (Inr (), commitElementsToDOM [beamedGroup3] s4))"

definition clearAllNotes :: "RhythmStaff \<Rightarrow> RhythmStaff" where
  "clearAllNotes s = s\<lparr>noteCursorX := 0, currentBeatCount := 0, notesLayer := [], noteEntries := []\<rparr>"

text \<open>The glyphs a group shows, in drawing order: what a reader of the staff sees of it.\<close>

fun child_glyph :: "svg_child \<Rightarrow> GlyphNames list" where
  "child_glyph (Use glyph xOffset) = [glyph]"
| "child_glyph (Line x1 y1 x2 y2) = []"
| "child_glyph (Rect w h x y) = []"
| "child_glyph (Group g) = []"

definition group_glyphs :: "SVGGElement \<Rightarrow> GlyphNames list" where
  "group_glyphs g = concat (map child_glyph (g_children g))"

section \<open>The note renderer\<close>

datatype NoteNames = NoteA | NoteB | NoteC | NoteD | NoteE | NoteF | NoteG

datatype Accidentals = Sharp | Flat | Natural | DoubleSharp | DoubleFlat

text \<open>A parsed note; \<open>accidental\<close> is \<open>None\<close> when the token has none.\<close>

record NoteObj =
  name :: NoteNames
  accidental :: "Accidentals option"
  octave :: int
  duration :: Durations

text \<open>An entry of the staff or of a chord; \<open>entryNote\<close> is its field \<^verbatim>\<open>note\<close>.\<close>

record NoteEntry =
  gElement :: SVGGElement
  entryNote :: NoteObj
  xPos :: rat
  yPos :: rat
  accidentalXOffset :: rat

record RenderNoteReturn =
  noteGroup :: SVGGElement
  accidentalOffset :: rat
  cursorOffset :: rat

text \<open>
  The capability set of a position strategy (\<^verbatim>\<open>strategies/StrategyInterface.ts\<close>, not among
  the sources): the vertical position of a pitch, whether a stem flips there, and the ledger
  lines of a note, each as \<open>(x1, x2, yPos)\<close>.
\<close>

record StaffStrategy =
  calculateNoteYPos :: "NoteNames \<Rightarrow> int \<Rightarrow> rat"
  shouldNoteFlip :: "rat \<Rightarrow> bool"
  getLedgerLinesX :: "NoteNames \<Rightarrow> int \<Rightarrow> Durations \<Rightarrow> rat \<Rightarrow> (rat \<times> rat \<times> rat) list"

datatype StaffTypes = treble | bass | alto | grand

text \<open>The strategy objects the constructors create, with the clef they are created for.\<close>

datatype StrategyInstance = SingleStaffStrategy StaffTypes | GrandStaffStrategy StaffTypes

text \<open>
  The functions of \<^verbatim>\<open>helpers/notehelpers.ts\<close> and the operations of the strategy classes,
  none of them among the sources, are parameters of the model. So is \<open>numberToString\<close>, the
  text that the runtime gives a number in a template literal when the number is not a whole
  number below \<^verbatim>\<open>1e21\<close>: its digits depend on the binary representation of the
  number, which the model does not have.
\<close>

record Deps =
  parseNoteString :: "string \<Rightarrow> error + NoteObj"
  getNameOctaveIdx :: "NoteNames \<Rightarrow> int \<Rightarrow> int"
  strategyOf :: "StrategyInstance \<Rightarrow> StaffStrategy"
  numberToString :: "rat \<Rightarrow> string"

text \<open>
  The text of a number in a template literal, \<^verbatim>\<open>`${x}`\<close>: a whole number of magnitude
  below \<^verbatim>\<open>1e21\<close> is written with its decimal digits, after a minus sign when it is
  negative; every other number has a decimal point or an exponent.
\<close>

definition digitChar :: "nat \<Rightarrow> char" where
  "digitChar n = ''0123456789'' ! n"

fun decimalDigits :: "nat \<Rightarrow> string" where
  "decimalDigits n =
     (if n < 10 then [digitChar n] else decimalDigits (n div 10) @ [digitChar (n mod 10)])"

definition Number_toString :: "Deps \<Rightarrow> rat \<Rightarrow> string" where
  "Number_toString D x =
     (if of_int \<lfloor>x\<rfloor> = x \<and> \<bar>x\<bar> < 10 ^ 21 then
        (if x < 0 then CHR ''-'' # decimalDigits (nat (- \<lfloor>x\<rfloor>)) else decimalDigits (nat \<lfloor>x\<rfloor>))
      else numberToString D x)"

text \<open>
  The first match of the pattern \<^verbatim>\<open>/([-]?\d+)/\<close> in a text: the leftmost place where a
  digit stands, or a minus sign before a digit, and the digits from there on. \<open>Number_of\<close>
  is \<^verbatim>\<open>Number(...)\<close> on such a match.
\<close>

definition isDigit :: "char \<Rightarrow> bool" where
  "isDigit c = (c \<in> set ''0123456789'')"

fun firstInteger :: "string \<Rightarrow> string option" where
  "firstInteger [] = None"
| "firstInteger (c # cs) =
     (if c = CHR ''-'' \<and> takeWhile isDigit cs \<noteq> [] then Some (c # takeWhile isDigit cs)
      else if isDigit c then Some (c # takeWhile isDigit cs)
      else firstInteger cs)"

definition digitVal :: "char \<Rightarrow> nat" where
  "digitVal c = length (takeWhile (\<lambda>d. d \<noteq> c) ''0123456789'')"

definition digitsValue :: "string \<Rightarrow> nat" where
  "digitsValue ds = foldl (\<lambda>a c. 10 * a + digitVal c) 0 ds"

definition Number_of :: "string \<Rightarrow> rat" where
  "Number_of str =
     (if take 1 str = ''-'' then - of_nat (digitsValue (drop 1 str)) else of_nat (digitsValue str))"

definition NoteRenderer_drawStem :: "constants \<Rightarrow> bool \<Rightarrow> SVGGElement \<Rightarrow> SVGGElement" where
  "NoteRenderer_drawStem K noteFlip g =
     (if noteFlip then drawLine 0 0 0 (NOTEHEAD_STEM_HEIGHT K) g
      else drawLine (HALF_NOTEHEAD_WIDTH K) 0 (HALF_NOTEHEAD_WIDTH K) (- NOTEHEAD_STEM_HEIGHT K) g)"

definition NoteRenderer_renderNote ::
  "constants \<Rightarrow> StaffStrategy \<Rightarrow> NoteObj \<Rightarrow> rat \<Rightarrow> RenderNoteReturn" where
  "NoteRenderer_renderNote K St noteObj ySpacing =
     (let g0 = createGroup ''note'';
          noteFlip = shouldNoteFlip St ySpacing;
          g1 = (case duration noteObj of
                  H \<Rightarrow> NoteRenderer_drawStem K noteFlip (drawGlyph NOTE_HEAD_HALF None g0)
                | Q \<Rightarrow> NoteRenderer_drawStem K noteFlip (drawGlyph NOTE_HEAD_QUARTER None g0)
                | E \<Rightarrow> (if noteFlip then drawGlyph EIGHTH_NOTE_FLIPPED None g0
                        else drawGlyph EIGHTH_NOTE None g0)
                | W \<Rightarrow> drawGlyph NOTE_HEAD_WHOLE None g0
                | S \<Rightarrow> drawGlyph NOTE_HEAD_WHOLE None g0);
          (g2, xOffset) =
            (case accidental noteObj of
               Some Sharp \<Rightarrow> (drawGlyph ACCIDENTAL_SHARP None g1, 0 - ACCIDENTAL_OFFSET_X K)
             | Some Flat \<Rightarrow> (drawGlyph ACCIDENTAL_FLAT None g1, 0 - ACCIDENTAL_OFFSET_X K)
             | Some Natural \<Rightarrow> (drawGlyph ACCIDENTAL_NATURAL None g1, 0 - ACCIDENTAL_OFFSET_X K)
             | Some DoubleSharp \<Rightarrow>
                 (drawGlyph ACCIDENTAL_DOUBLE_SHARP None g1,
                  0 - (ACCIDENTAL_OFFSET_X K + DOUBLE_SHARP_ACCIDENTAL_OFFSET_X K))
             | Some DoubleFlat \<Rightarrow>
                 (drawGlyph ACCIDENTAL_DOUBLE_FLAT None g1,
                  0 - (ACCIDENTAL_OFFSET_X K + DOUBLE_FLAT_ACCIDENTAL_OFFSET_X K))
             | None \<Rightarrow> (g1, 0));
          ledgerLines = getLedgerLinesX St (name noteObj) (octave noteObj) (duration noteObj) ySpacing;
          g3 = foldl (\<lambda>g (lx1, lx2, ly). drawLine lx1 ly lx2 ly g) g2 ledgerLines
      in \<lparr>noteGroup = g3, accidentalOffset = xOffset, cursorOffset = 0\<rparr>)"

text \<open>
  The accidental of a note group: the first \<^verbatim>\<open>use\<close> element whose glyph is an accidental
  (\<^verbatim>\<open>href\<close> includes \<^verbatim>\<open>ACCIDENTAL\<close>). \<open>findAccidental\<close> gives its transform, and
  \<open>setAccidentalTransform\<close> sets it. A note group holds no nested groups, so the search
  stays among the children.
\<close>

fun isAccidentalGlyph :: "GlyphNames \<Rightarrow> bool" where
  "isAccidentalGlyph ACCIDENTAL_SHARP = True"
| "isAccidentalGlyph ACCIDENTAL_FLAT = True"
| "isAccidentalGlyph ACCIDENTAL_NATURAL = True"
| "isAccidentalGlyph ACCIDENTAL_DOUBLE_SHARP = True"
| "isAccidentalGlyph ACCIDENTAL_DOUBLE_FLAT = True"
| "isAccidentalGlyph glyph = False"

fun findAccidental :: "svg_child list \<Rightarrow> rat option option" where
  "findAccidental [] = None"
| "findAccidental (Use glyph t # cs) = (if isAccidentalGlyph glyph then Some t else findAccidental cs)"
| "findAccidental (c # cs) = findAccidental cs"

fun setAccidentalTransform :: "rat \<Rightarrow> svg_child list \<Rightarrow> svg_child list" where
  "setAccidentalTransform x [] = []"
| "setAccidentalTransform x (Use glyph t # cs) =
     (if isAccidentalGlyph glyph then Use glyph (Some x) # cs
      else Use glyph t # setAccidentalTransform x cs)"
| "setAccidentalTransform x (c # cs) = c # setAccidentalTransform x cs"

text \<open>
  What \<^verbatim>\<open>chordOffsetConsecutiveAccidentals\<close> does to an entry once the offset of the
  round is known: when the offset is not 0 and the group has an accidental, the accidental's
  transform is set to the offset less the base unit, which the glyph already carries.
\<close>

definition applyConsecutiveOffset :: "constants \<Rightarrow> rat \<Rightarrow> NoteEntry \<Rightarrow> NoteEntry" where
  "applyConsecutiveOffset K consecutiveXOffset currNote =
     (if consecutiveXOffset \<noteq> 0 then
        (case findAccidental (g_children (gElement currNote)) of
           None \<Rightarrow> currNote
         | Some t \<Rightarrow>
             currNote\<lparr>gElement :=
               SVGGElement (g_class (gElement currNote)) (g_translate (gElement currNote))
                 (setAccidentalTransform (consecutiveXOffset + - ACCIDENTAL_OFFSET_X K)
                    (g_children (gElement currNote)))\<rparr>)
      else currNote)"

text \<open>
  \<^verbatim>\<open>chordOffsetConsecutiveAccidentals\<close>: the loop over the entries, carrying
  \<^verbatim>\<open>consecutiveXOffset\<close>, \<^verbatim>\<open>maxConsecutiveXOffset\<close> and \<^verbatim>\<open>currentAccidentalCount\<close>. It
  gives the entries as the loop leaves them and the final \<^verbatim>\<open>maxConsecutiveXOffset\<close>.
\<close>

fun chordOffsetConsecutiveAccidentals_loop ::
  "constants \<Rightarrow> NoteEntry list \<Rightarrow> rat \<Rightarrow> rat \<Rightarrow> nat \<Rightarrow> NoteEntry list \<times> rat" where
  "chordOffsetConsecutiveAccidentals_loop K [] consecutiveXOffset maxConsecutiveXOffset
       currentAccidentalCount = ([], maxConsecutiveXOffset)"
| "chordOffsetConsecutiveAccidentals_loop K (currNote # rest) consecutiveXOffset
       maxConsecutiveXOffset currentAccidentalCount =
     (let (off1, max1, count1) =
            (if accidental (entryNote currNote) \<noteq> None
                 \<and> of_nat currentAccidentalCount < CHORD_MAX_CONSECUTIVE_ACCIDENTALS K
             then (consecutiveXOffset + ACCIDENTAL_OFFSET_X K,
                   min maxConsecutiveXOffset (consecutiveXOffset + ACCIDENTAL_OFFSET_X K),
                   currentAccidentalCount + 1)
             else if accidental (entryNote currNote) \<noteq> None
                 \<and> of_nat currentAccidentalCount \<le> CHORD_MAX_CONSECUTIVE_ACCIDENTALS K
             then (ACCIDENTAL_OFFSET_X K, maxConsecutiveXOffset, 1)
             else (0, maxConsecutiveXOffset, 0));
          currNote1 = applyConsecutiveOffset K off1 currNote;
          (rest1, r) = chordOffsetConsecutiveAccidentals_loop K rest off1 max1 count1
      in (currNote1 # rest1, r))"

definition chordOffsetConsecutiveAccidentals ::
  "constants \<Rightarrow> NoteEntry list \<Rightarrow> NoteEntry list \<times> rat" where
  "chordOffsetConsecutiveAccidentals K notes =
     (let (notes1, maxConsecutiveXOffset) = chordOffsetConsecutiveAccidentals_loop K notes 0 0 0
      in (notes1, - maxConsecutiveXOffset))"

text \<open>
  What \<^verbatim>\<open>chordOffsetCloseNotes\<close> does to the second note of a close pair: the group is
  translated to \<^verbatim>\<open>NOTE_SPACING / 2\<close>, and its accidental, if it has one, is put at minus
  that amount, plus the number that the first match of \<^verbatim>\<open>/([-]?\d+)/\<close> in the text of
  its transform, \<^verbatim>\<open>translate(x, 0)\<close>, stands for when it has a transform.
\<close>

definition offsetCloseNote :: "Deps \<Rightarrow> constants \<Rightarrow> NoteEntry \<Rightarrow> NoteEntry" where
  "offsetCloseNote D K currNote =
     (let closeNotesXOffset = NOTE_SPACING K / 2;
          g1 = setTranslate closeNotesXOffset (yPos currNote) (gElement currNote);
          g2 = (case findAccidental (g_children g1) of
                  None \<Rightarrow> g1
                | Some t \<Rightarrow>
                    let matches =
                          (case t of
                             None \<Rightarrow> None
                           | Some x \<Rightarrow> firstInteger (''translate('' @ Number_toString D x @ '', 0)''));
                        newXPos = - closeNotesXOffset
                          + (case matches of None \<Rightarrow> 0 | Some currentXOffset \<Rightarrow> Number_of currentXOffset)
                    in SVGGElement (g_class g1) (g_translate g1)
                         (setAccidentalTransform newXPos (g_children g1)))
      in currNote\<lparr>gElement := g2\<rparr>)"

text \<open>
  The loop of \<^verbatim>\<open>chordOffsetCloseNotes\<close>, by index as in the source: \<open>prevNote\<close> is
  \<open>None\<close> when \<^verbatim>\<open>notes[i]\<close> was read past the end; reading a property of it would throw.
\<close>

function chordOffsetCloseNotes_loop ::
  "Deps \<Rightarrow> constants \<Rightarrow> nat \<Rightarrow> NoteEntry option \<Rightarrow> NoteEntry list \<Rightarrow> rat
     \<Rightarrow> error + (NoteEntry list \<times> rat)" where
  "chordOffsetCloseNotes_loop D K i prevNote notes closeNotesXOffset =
     (if i < length notes then
        (case prevNote of
           None \<Rightarrow> Inl TypeError
         | Some prev \<Rightarrow>
             let currNote = notes ! i;
                 nameDiff = getNameOctaveIdx D (name (entryNote currNote)) (octave (entryNote currNote))
                            - getNameOctaveIdx D (name (entryNote prev)) (octave (entryNote prev))
             in if nameDiff = 1 then
                  let notes1 = notes[i := offsetCloseNote D K currNote];
                      i1 = i + 1;
                      prevNote1 = (if i1 < length notes1 then Some (notes1 ! i1) else None)
                  in chordOffsetCloseNotes_loop D K (i1 + 1) prevNote1 notes1 (NOTE_SPACING K / 2)
                else chordOffsetCloseNotes_loop D K (i + 1) (Some currNote) notes closeNotesXOffset)
      else Inr (notes, closeNotesXOffset))"
  by pat_completeness auto
termination
  by (relation "measure (\<lambda>(D, K, i, prevNote, notes, closeNotesXOffset). length notes - i)") auto

definition chordOffsetCloseNotes ::
  "Deps \<Rightarrow> constants \<Rightarrow> NoteEntry list \<Rightarrow> error + (NoteEntry list \<times> rat)" where
  "chordOffsetCloseNotes D K notes =
     chordOffsetCloseNotes_loop D K 1 (if 0 < length notes then Some (notes ! 0) else None) notes 0"

text \<open>
  \<^verbatim>\<open>renderChord\<close>: every member is parsed, placed and rendered, then the two passes run over
  the entries. The member groups are children of the chord group and the passes change them
  in place, so the chord group holds them as the passes leave them.
\<close>

fun renderChord_members ::
  "Deps \<Rightarrow> constants \<Rightarrow> StaffStrategy \<Rightarrow> string list \<Rightarrow> error + NoteEntry list" where
  "renderChord_members D K St [] = Inr []"
| "renderChord_members D K St (noteString # rest) =
     (case parseNoteString D noteString of
        Inl err \<Rightarrow> Inl err
      | Inr noteObj \<Rightarrow>
          let y = calculateNoteYPos St (name noteObj) (octave noteObj);
              res = NoteRenderer_renderNote K St noteObj y;
              g = setTranslate 0 y (noteGroup res)
          in (case renderChord_members D K St rest of
                Inl err \<Rightarrow> Inl err
              | Inr noteObjs \<Rightarrow>
                  Inr (\<lparr>gElement = g, entryNote = noteObj, xPos = 0, yPos = y,
                        accidentalXOffset = 0\<rparr> # noteObjs)))"

definition renderChord ::
  "Deps \<Rightarrow> constants \<Rightarrow> StaffStrategy \<Rightarrow> string list \<Rightarrow> error + RenderNoteReturn" where
  "renderChord D K St notes =
     (case renderChord_members D K St notes of
        Inl err \<Rightarrow> Inl err
      | Inr noteObjs \<Rightarrow>
          let (noteObjs1, accidentalXOffset) = chordOffsetConsecutiveAccidentals K noteObjs
          in (case chordOffsetCloseNotes D K noteObjs1 of
                Inl err \<Rightarrow> Inl err
              | Inr (noteObjs2, closeNotesXOffset) \<Rightarrow>
                  Inr \<lparr>noteGroup = SVGGElement ''chord'' None (map (\<lambda>e. Group (gElement e)) noteObjs2),
                       accidentalOffset = accidentalXOffset,
                       cursorOffset = closeNotesXOffset\<rparr>))"

section \<open>The pitched staff\<close>

text \<open>
  The options that reach the layout (the type of \<open>staffType\<close> is \<^verbatim>\<open>StaffTypes\<close>; at run
  time it is a string), the calls a constructor makes on the renderer, and the state of a
  \<^verbatim>\<open>MusicStaff\<close>, with the children of the \<^verbatim>\<open>notes\<close> layer as \<open>staffNotesLayer\<close>.
\<close>

record MusicStaffOptions =
  staffWidth :: rat
  staffType :: string
  spaceAbove :: rat
  spaceBelow :: rat

datatype renderer_call =
    NewSVGRenderer rat
  | DrawStaff StrategyInstance rat
  | AddTotalRootSvgYOffset rat
  | AddTotalRootSvgHeight rat
  | AddClassToNotesLayer string
  | ApplySizingToRootSvg
  | CommitRootSvgToDOM

record MusicStaff =
  staffOptions :: MusicStaffOptions
  strategyInstance :: StrategyInstance
  staffNoteEntries :: "NoteEntry list"
  staffNoteCursorX :: rat
  staffNotesLayer :: "SVGGElement list"

text \<open>The \<^verbatim>\<open>switch\<close> on the staff type, shared by the constructors; \<open>None\<close> is its default.\<close>

definition selectStrategy :: "string \<Rightarrow> StrategyInstance option" where
  "selectStrategy ty =
     (if ty = ''grand'' then Some (GrandStaffStrategy grand)
      else if ty = ''bass'' then Some (SingleStaffStrategy bass)
      else if ty = ''treble'' then Some (SingleStaffStrategy treble)
      else if ty = ''alto'' then Some (SingleStaffStrategy alto)
      else None)"

text \<open>The calls for the outer spacing, made after the staff is drawn.\<close>

definition spacingCalls :: "constants \<Rightarrow> MusicStaffOptions \<Rightarrow> renderer_call list" where
  "spacingCalls K opts =
     (if spaceAbove opts \<noteq> 0 then [AddTotalRootSvgYOffset (spaceAbove opts * STAFF_LINE_SPACING K)]
      else [])
     @ (if spaceBelow opts \<noteq> 0 then
          [AddTotalRootSvgHeight
             (if staffType opts = ''grand''
              then spaceBelow opts * STAFF_LINE_SPACING K - STAFF_LINE_SPACING K / 2
              else spaceBelow opts * STAFF_LINE_SPACING K)]
        else [])"

definition MusicStaff_new ::
  "constants \<Rightarrow> MusicStaffOptions \<Rightarrow> (error + MusicStaff) \<times> renderer_call list" where
  "MusicStaff_new K opts =
     (let calls0 = [NewSVGRenderer (staffWidth opts)] in
      case selectStrategy (staffType opts) of
        None \<Rightarrow> (Inl ConfigError, calls0)
      | Some strategy \<Rightarrow>
          (Inr \<lparr>staffOptions = opts, strategyInstance = strategy, staffNoteEntries = [],
                staffNoteCursorX = 0, staffNotesLayer = []\<rparr>,
           calls0 @ [DrawStaff strategy (staffWidth opts)] @ spacingCalls K opts
             @ [ApplySizingToRootSvg, CommitRootSvgToDOM]))"

text \<open>The scrolling staff: the same constructor, which also marks the notes layer.\<close>

record ScrollingStaff =
  scrollOptions :: MusicStaffOptions
  scrollStrategyInstance :: StrategyInstance
  activeEntries :: "(SVGGElement \<times> rat) list"
  noteBuffer :: "(bool \<times> string list) list"
  scrollNoteCursorX :: rat

definition ScrollingStaff_new ::
  "constants \<Rightarrow> MusicStaffOptions \<Rightarrow> (error + ScrollingStaff) \<times> renderer_call list" where
  "ScrollingStaff_new K opts =
     (let calls0 = [NewSVGRenderer (staffWidth opts)] in
      case selectStrategy (staffType opts) of
        None \<Rightarrow> (Inl ConfigError, calls0)
      | Some strategy \<Rightarrow>
          (Inr \<lparr>scrollOptions = opts, scrollStrategyInstance = strategy, activeEntries = [],
                noteBuffer = [], scrollNoteCursorX = 0\<rparr>,
           calls0 @ [DrawStaff strategy (staffWidth opts)] @ spacingCalls K opts
             @ [AddClassToNotesLayer ''scrolling-notes-layer'', ApplySizingToRootSvg,
                CommitRootSvgToDOM]))"

definition MusicStaff_commit :: "SVGGElement list \<Rightarrow> MusicStaff \<Rightarrow> MusicStaff" where
  "MusicStaff_commit gs s = s\<lparr>staffNotesLayer := staffNotesLayer s @ gs\<rparr>"



text \<open>
  \<^verbatim>\<open>changeNoteByIndex(note, noteIndex)\<close>. The guard tests the index against the length
  only; \<^verbatim>\<open>noteEntries[noteIndex]\<close> is \<^verbatim>\<open>undefined\<close> for a negative index, and reading its
  \<^verbatim>\<open>xPos\<close>, after the new note is parsed and rendered into a detached group, throws a
  \<^verbatim>\<open>TypeError\<close>. The group of entry \<open>i\<close> is the \<open>i\<close>-th child of the layer, where
  \<^verbatim>\<open>replaceChild\<close> puts the new group.
\<close>

definition changeNoteByIndex ::
  "Deps \<Rightarrow> constants \<Rightarrow> string \<Rightarrow> int \<Rightarrow> MusicStaff \<Rightarrow> (error + unit) \<times> MusicStaff" where
  "changeNoteByIndex D K noteString noteIndex s =
     (if noteIndex \<ge> int (length (staffNoteEntries s)) then (Inl BoundsError, s)
      else
        case parseNoteString D noteString of
          Inl err \<Rightarrow> (Inl err, s)
        | Inr noteObj \<Rightarrow>
            if noteIndex < 0 then (Inl TypeError, s)
            else
              let noteEntry = staffNoteEntries s ! nat noteIndex;
                  St = strategyOf D (strategyInstance s);
                  newNoteYPos = calculateNoteYPos St (name noteObj) (octave noteObj);
                  res = NoteRenderer_renderNote K St noteObj newNoteYPos;
                  normalizedOriginalXPos = xPos noteEntry - accidentalXOffset noteEntry;
                  newXPos = normalizedOriginalXPos + accidentalOffset res;
                  g = setTranslate newXPos newNoteYPos (noteGroup res);
                  s1 = s\<lparr>staffNotesLayer := (staffNotesLayer s)[nat noteIndex := g]\<rparr>;
                  s2 = s1\<lparr>staffNoteEntries := (staffNoteEntries s1)[nat noteIndex :=
                         \<lparr>gElement = g, entryNote = noteObj, xPos = newXPos, yPos = newNoteYPos,
                          accidentalXOffset = accidentalOffset res\<rparr>]\<rparr>
              in (Inr (), s2))"

section \<open>The filler rests\<close>

text \<open>
  The greedy, largest-fits-first decomposition of a number of beats over the half, the
  quarter and the eighth rest, in the words of the specification: a rest is taken when it
  fits in what is left.
\<close>

function greedy_rests :: "rat \<Rightarrow> Durations list" where
  "greedy_rests r =
     (if 2 \<le> r then H # greedy_rests (r - 2)
      else if 1 \<le> r then Q # greedy_rests (r - 1)
      else if 1 / 2 \<le> r then E # greedy_rests (r - 1 / 2)
      else [])"
  by pat_completeness auto
termination
proof (relation "measure (\<lambda>r. nat \<lceil>2 * r\<rceil>)", goal_cases)
  case 1
  show ?case by simp
next
  case (2 r)
  have "2 * (r - 2) = 2 * r - of_int 4" by simp
  then have "\<lceil>2 * (r - 2)\<rceil> = \<lceil>2 * r\<rceil> - 4" by (simp only: ceiling_diff_of_int)
  moreover from 2 have "0 < \<lceil>2 * r\<rceil>" by simp
  ultimately show ?case by simp
next
  case (3 r)
  have "2 * (r - 1) = 2 * r - of_int 2" by simp
  then have "\<lceil>2 * (r - 1)\<rceil> = \<lceil>2 * r\<rceil> - 2" by (simp only: ceiling_diff_of_int)
  moreover from 3 have "0 < \<lceil>2 * r\<rceil>" by simp
  ultimately show ?case by simp
next
  case (4 r)
  have "2 * (r - 1 / 2) = 2 * r - of_int 1" by simp
  then have "\<lceil>2 * (r - 1 / 2)\<rceil> = \<lceil>2 * r\<rceil> - 1" by (simp only: ceiling_diff_of_int)
  moreover from 4 have "0 < \<lceil>2 * r\<rceil>" by simp
  ultimately show ?case by simp
qed


text \<open>The rest that one round of \<^verbatim>\<open>createRemainingRests\<close> adds when \<open>r\<close> beats are left.\<close>

definition fillerBeat :: "rat \<Rightarrow> rat" where
  "fillerBeat r = (if 2 \<le> r then 2 else if 1 \<le> r then 1 else 1 / 2)"

definition fillerGlyph :: "rat \<Rightarrow> GlyphNames" where
  "fillerGlyph r = (if 2 \<le> r then REST_HALF else if 1 \<le> r then REST_QUARTER else REST_EIGHTH)"

text \<open>
  The groups of a row of rests of the given durations, the first at \<open>x\<close> and each one
  where the one before it ends, with \<open>q\<close> units to the beat: a group of class
  \<^verbatim>\<open>rest\<close> with the glyph of the duration, translated to its place.
\<close>

fun restGroupsAt :: "rat \<Rightarrow> rat \<Rightarrow> Durations list \<Rightarrow> SVGGElement list" where
  "restGroupsAt q x [] = []"
| "restGroupsAt q x (d # ds) =
     setTranslate x 0 (renderRest d (createGroup ''rest''))
       # restGroupsAt q (x + durationBeatValueMap d * q) ds"

section \<open>A batch, member by member\<close>






section \<open>The two chord passes, entry by entry\<close>







text \<open>
  The value of \<^verbatim>\<open>consecutiveXOffset\<close> after each round of
  \<^verbatim>\<open>chordOffsetConsecutiveAccidentals\<close>, from its value and the count before the first.
\<close>

fun consecutiveXOffsets :: "constants \<Rightarrow> NoteEntry list \<Rightarrow> rat \<Rightarrow> nat \<Rightarrow> rat list" where
  "consecutiveXOffsets K [] consecutiveXOffset currentAccidentalCount = []"
| "consecutiveXOffsets K (currNote # rest) consecutiveXOffset currentAccidentalCount =
     (let (off1, count1) =
            (if accidental (entryNote currNote) \<noteq> None
                 \<and> of_nat currentAccidentalCount < CHORD_MAX_CONSECUTIVE_ACCIDENTALS K
             then (consecutiveXOffset + ACCIDENTAL_OFFSET_X K, currentAccidentalCount + 1)
             else if accidental (entryNote currNote) \<noteq> None
                 \<and> of_nat currentAccidentalCount \<le> CHORD_MAX_CONSECUTIVE_ACCIDENTALS K
             then (ACCIDENTAL_OFFSET_X K, 1)
             else (0, 0))
      in off1 # consecutiveXOffsets K rest off1 count1)"

section \<open>Stand-ins for the absent modules\<close>

text \<open>
  Values for the constants, to run the model on concrete inputs; the general theorems hold
  for all values.
\<close>

definition sampleConstants :: constants where
  "sampleConstants =
     \<lparr>NOTE_LAYER_START_X = 30, NOTE_SPACING = 28, HALF_NOTEHEAD_WIDTH = 5,
      NOTEHEAD_STEM_HEIGHT = 20, ACCIDENTAL_OFFSET_X = - 10,
      DOUBLE_SHARP_ACCIDENTAL_OFFSET_X = - 2, DOUBLE_FLAT_ACCIDENTAL_OFFSET_X = - 4,
      CHORD_MAX_CONSECUTIVE_ACCIDENTALS = 3, STAFF_LINE_SPACING = 10\<rparr>"

text \<open>
  The rhythm staff that the constructor gives for two bars of four beats and a width of 300,
  and that staff after three quarter notes, when one beat remains in the first bar.
\<close>

definition sampleRhythmStaff :: RhythmStaff where
  "sampleRhythmStaff =
     \<lparr>options = \<lparr>width = 300, topNumber = 4, barsCount = 2\<rparr>,
      barSpacing = 257 / 2, quarterNoteSpacing = 32, noteCursorX = 0, noteEntries = [],
      maxBeatCount = 8, currentBeatCount = 0, notesLayer = []\<rparr>"

definition staffAfterThreeQuarters :: RhythmStaff where
  "staffAfterThreeQuarters = snd (drawNote sampleConstants [''q'', ''q'', ''q''] sampleRhythmStaff)"

text \<open>
  Modelled from the spec: \<^verbatim>\<open>parseNoteString\<close> of \<^verbatim>\<open>helpers/notehelpers.ts\<close>, the
  full-token grammar: a pitch letter A to G, an optional accidental (\<^verbatim>\<open>##\<close>, \<^verbatim>\<open>bb\<close>,
  \<^verbatim>\<open>#\<close>, \<^verbatim>\<open>b\<close> or \<^verbatim>\<open>n\<close>), the digits of the octave, and a duration letter; a parse
  error when one of them is missing or not recognised.
\<close>

definition parsePitch :: "char \<Rightarrow> NoteNames option" where
  "parsePitch c = map_of (zip ''ABCDEFG'' [NoteA, NoteB, NoteC, NoteD, NoteE, NoteF, NoteG]) c"

definition parseAccidental :: "string \<Rightarrow> Accidentals option \<times> string" where
  "parseAccidental str =
     (if take 2 str = ''##'' then (Some DoubleSharp, drop 2 str)
      else if take 2 str = ''bb'' then (Some DoubleFlat, drop 2 str)
      else if take 1 str = ''#'' then (Some Sharp, drop 1 str)
      else if take 1 str = ''b'' then (Some Flat, drop 1 str)
      else if take 1 str = ''n'' then (Some Natural, drop 1 str)
      else (None, str))"

definition digitValue :: "char \<Rightarrow> int option" where
  "digitValue c = map_of (zip ''0123456789'' [0, 1, 2, 3, 4, 5, 6, 7, 8, 9]) c"

definition specParseNoteString :: "string \<Rightarrow> error + NoteObj" where
  "specParseNoteString str =
     (case str of
        [] \<Rightarrow> Inl ParseError
      | p # rest \<Rightarrow>
          (case parsePitch p of
             None \<Rightarrow> Inl ParseError
           | Some pitch \<Rightarrow>
               let (acc, rest1) = parseAccidental rest;
                   digits = takeWhile (\<lambda>c. digitValue c \<noteq> None) rest1;
                   rest2 = dropWhile (\<lambda>c. digitValue c \<noteq> None) rest1
               in if digits = [] then Inl ParseError
                  else
                    (case parseDurationNoteString rest2 of
                       Inl err \<Rightarrow> Inl err
                     | Inr d \<Rightarrow>
                         Inr \<lparr>name = pitch, accidental = acc,
                              octave = foldl (\<lambda>a c. 10 * a + (case digitValue c of None \<Rightarrow> 0 | Some v \<Rightarrow> v)) 0 digits,
                              duration = d\<rparr>)))"

text \<open>
  Modelled from the spec: \<^verbatim>\<open>getNameOctaveIdx\<close> of \<^verbatim>\<open>helpers/notehelpers.ts\<close>, the
  diatonic index, an integer of octave and pitch name that is strictly monotonic with pitch
  height: seven steps to the octave, which starts at C.
\<close>

fun nameIdx :: "NoteNames \<Rightarrow> int" where
  "nameIdx NoteC = 0"
| "nameIdx NoteD = 1"
| "nameIdx NoteE = 2"
| "nameIdx NoteF = 3"
| "nameIdx NoteG = 4"
| "nameIdx NoteA = 5"
| "nameIdx NoteB = 6"

definition diatonicIdx :: "NoteNames \<Rightarrow> int \<Rightarrow> int" where
  "diatonicIdx pitch oct = oct * 7 + nameIdx pitch"

text \<open>
  A strategy to run the model with: half a line spacing per diatonic step below F5, stems
  flipped from B4 up, no ledger lines; and a pitched staff with it, still empty. The
  examples only print whole numbers, so \<open>numberToString\<close> is never asked and stands
  empty.
\<close>

definition sampleStrategy :: StaffStrategy where
  "sampleStrategy =
     \<lparr>calculateNoteYPos = (\<lambda>pitch oct. of_int (diatonicIdx NoteF 5 - diatonicIdx pitch oct) * 5),
      shouldNoteFlip = (\<lambda>y. y \<le> 20),
      getLedgerLinesX = (\<lambda>pitch oct d y. [])\<rparr>"

definition sampleDeps :: Deps where
  "sampleDeps =
     \<lparr>parseNoteString = specParseNoteString, getNameOctaveIdx = diatonicIdx,
      strategyOf = (\<lambda>strategy. sampleStrategy),
      numberToString = (\<lambda>x. [])\<rparr>"



text \<open>A chord of five notes that all bear an accidental, as \<^verbatim>\<open>renderChord\<close> builds its entries.\<close>

definition sampleAccidentalChord :: "NoteEntry list" where
  "sampleAccidentalChord =
     (case renderChord_members sampleDeps sampleConstants sampleStrategy
             [''C#4q'', ''E#4q'', ''G#4q'', ''Bb4q'', ''Db5q''] of
        Inl err \<Rightarrow> []
      | Inr noteObjs \<Rightarrow> noteObjs)"


section \<open>Arithmetic of the remainder operator\<close>

lemma floor_rat_numeral_div [simp]:
  "\<lfloor>numeral a / numeral b :: rat\<rfloor> = numeral a div numeral b"
  using floor_divide_of_int_eq [of "numeral a" "numeral b", where ?'a = rat] by simp

lemma floor_rat_one_div [simp]:
  "\<lfloor>1 / numeral b :: rat\<rfloor> = 1 div numeral b"
  using floor_divide_of_int_eq [of 1 "numeral b", where ?'a = rat] by simp

declare greedy_rests.simps [simp del]

declare createRemainingRests_loop.simps [simp del]

lemma js_mod_range:
  assumes "0 \<le> a" "0 < b"
  shows "0 \<le> js_mod a b" "js_mod a b < b"
proof -
  from assms have q: "0 \<le> a / b" by simp
  then have t: "js_trunc (a / b) = \<lfloor>a / b\<rfloor>" by (simp add: js_trunc_def)
  have "of_int \<lfloor>a / b\<rfloor> * b \<le> (a / b) * b"
    by (rule mult_right_mono) (use assms in simp_all)
  with assms(2) have "of_int \<lfloor>a / b\<rfloor> * b \<le> a" by simp
  then show "0 \<le> js_mod a b" by (simp add: js_mod_def t mult.commute)
  have "a / b < of_int \<lfloor>a / b\<rfloor> + 1" by linarith
  then have "(a / b) * b < (of_int \<lfloor>a / b\<rfloor> + 1) * b"
    by (rule mult_strict_right_mono) (use assms in simp_all)
  with assms(2) have "a < (of_int \<lfloor>a / b\<rfloor> + 1) * b" by simp
  then show "js_mod a b < b" by (simp add: js_mod_def t algebra_simps)
qed

lemma loop_done: "\<not> 0 < r \<Longrightarrow> createRemainingRests_loop r acc s = (acc, s)"
  by (simp add: createRemainingRests_loop.simps)

lemma loop_step:
  "0 < r \<Longrightarrow> createRemainingRests_loop r acc s =
     createRemainingRests_loop (r - fillerBeat r)
       (acc @ [SVGGElement ''rest'' (Some (noteCursorX s, 0)) [Use (fillerGlyph r) None]])
       (s\<lparr>currentBeatCount := currentBeatCount s + fillerBeat r,
          noteCursorX := noteCursorX s + fillerBeat r * quarterNoteSpacing s\<rparr>)"
  by (subst createRemainingRests_loop.simps)
     (simp add: fillerBeat_def fillerGlyph_def createGroup_def drawGlyph_def appendChild_def
        setTranslate_def)

lemma fillerBeat_cases: "fillerBeat r = 2 \<or> fillerBeat r = 1 \<or> fillerBeat r = 1 / 2"
  by (simp add: fillerBeat_def)

lemma filler_measure: "0 < r \<Longrightarrow> nat \<lceil>2 * (r - fillerBeat r)\<rceil> < nat \<lceil>2 * r\<rceil>"
proof -
  assume pos: "0 < r"
  then have p: "0 < \<lceil>2 * r\<rceil>" by simp
  have "2 * (r - fillerBeat r) = 2 * r - of_int 4
      \<or> 2 * (r - fillerBeat r) = 2 * r - of_int 2
      \<or> 2 * (r - fillerBeat r) = 2 * r - of_int 1"
    using fillerBeat_cases [of r] by auto
  then have "\<lceil>2 * (r - fillerBeat r)\<rceil> < \<lceil>2 * r\<rceil>"
    by (auto simp only: ceiling_diff_of_int)
  with p show ?thesis by simp
qed

lemma greedy_rests_sum:
  "0 \<le> r \<Longrightarrow> 2 * r \<in> \<int> \<Longrightarrow> sum_list (map durationBeatValueMap (greedy_rests r)) = r"
proof (induction r rule: greedy_rests.induct)
  case (1 r)
  from 1(5) obtain k :: int where k: "2 * r = of_int k" by (auto elim: Ints_cases)
  have ints: "2 * (r - 2) \<in> \<int>" "2 * (r - 1) \<in> \<int>" "2 * (r - 1 / 2) \<in> \<int>"
    using 1(5) by (auto simp: algebra_simps)
  show ?case
  proof (cases "2 \<le> r")
    case True
    with 1(1) ints show ?thesis by (subst greedy_rests.simps) simp
  next
    case False
    note f2 = this
    show ?thesis
    proof (cases "1 \<le> r")
      case True
      with f2 1(2) ints show ?thesis by (subst greedy_rests.simps) simp
    next
      case False
      note f1 = this
      show ?thesis
      proof (cases "1 / 2 \<le> r")
        case True
        with f2 f1 1(3) ints show ?thesis by (subst greedy_rests.simps) simp
      next
        case False
        with k have "of_int k < (1 :: rat)" by simp
        then have "k < 1" by simp
        moreover from 1(4) k have "0 \<le> k" by (metis of_int_0_le_iff zero_le_mult_iff zero_le_numeral not_numeral_le_zero)
        ultimately have "k = 0" by simp
        with k have "r = 0" by simp
        then show ?thesis by (subst greedy_rests.simps) simp
      qed
    qed
  qed
qed

lemma checkAndCreateNewBar_cursor:
  "(checkAndCreateNewBar s)\<lparr>noteCursorX := x\<rparr> = s\<lparr>noteCursorX := x\<rparr>"
  by (simp add: checkAndCreateNewBar_def handleNewBar_def Let_def)

lemma remaining_range:
  assumes "topNumber (options s) = 3 \<or> topNumber (options s) = 4" "0 \<le> currentBeatCount s"
  shows "0 < remainingBeatsInBar s"
proof -
  from assms(1) have "0 < topNumber (options s)" by auto
  from js_mod_range(2) [OF assms(2) this] show ?thesis by (simp add: remainingBeatsInBar_def)
qed

text \<open>
  On the eighth-note grid the loop of \<^verbatim>\<open>createRemainingRests\<close> draws the rests of the
  greedy decomposition, from the cursor on, and moves the beat count and the cursor by the
  beats it was given.
\<close>

lemma loop_greedy:
  "0 \<le> r \<Longrightarrow> 2 * r \<in> \<int> \<Longrightarrow>
   createRemainingRests_loop r acc s =
     (acc @ restGroupsAt (quarterNoteSpacing s) (noteCursorX s) (greedy_rests r),
      s\<lparr>currentBeatCount := currentBeatCount s + r,
         noteCursorX := noteCursorX s + r * quarterNoteSpacing s\<rparr>)"
proof (induction "nat \<lceil>2 * r\<rceil>" arbitrary: r acc s rule: less_induct)
  case less
  show ?case
  proof (cases "0 < r")
    case False
    with less.prems have "r = 0" by simp
    then show ?thesis by (simp add: loop_done greedy_rests.simps)
  next
    case True
    from less.prems obtain k :: int where k: "2 * r = of_int k" by (auto elim: Ints_cases)
    have half: "r = 1 / 2" if "r < 1"
    proof -
      from that k have "of_int k < (2 :: rat)" by simp
      then have "k < 2" by simp
      moreover from True k have "(0 :: rat) < of_int k" by simp
      then have "0 < k" by simp
      ultimately have "k = 1" by simp
      with k show "r = 1 / 2" by simp
    qed
    define d where "d = (if 2 \<le> r then H else if 1 \<le> r then Q else E)"
    have b: "fillerBeat r = durationBeatValueMap d"
      by (simp add: fillerBeat_def d_def)
    have g: "SVGGElement ''rest'' (Some (noteCursorX s, 0)) [Use (fillerGlyph r) None]
               = setTranslate (noteCursorX s) 0 (renderRest d (createGroup ''rest''))"
      by (simp add: fillerGlyph_def d_def setTranslate_def createGroup_def drawGlyph_def
          appendChild_def)
    have gr: "greedy_rests r = d # greedy_rests (r - durationBeatValueMap d)"
      using True half by (subst greedy_rests.simps) (auto simp: d_def)
    have le: "durationBeatValueMap d \<le> r" using True half by (auto simp: d_def)
    have int: "2 * (r - durationBeatValueMap d) \<in> \<int>"
      using less.prems(2) by (auto simp: d_def algebra_simps)
    let ?s = "s\<lparr>currentBeatCount := currentBeatCount s + fillerBeat r,
          noteCursorX := noteCursorX s + fillerBeat r * quarterNoteSpacing s\<rparr>"
    have ih: "createRemainingRests_loop (r - fillerBeat r) acc' ?s =
       (acc' @ restGroupsAt (quarterNoteSpacing ?s) (noteCursorX ?s) (greedy_rests (r - fillerBeat r)),
        ?s\<lparr>currentBeatCount := currentBeatCount ?s + (r - fillerBeat r),
           noteCursorX := noteCursorX ?s + (r - fillerBeat r) * quarterNoteSpacing ?s\<rparr>)" for acc'
      using le int by (intro less.hyps [OF filler_measure [OF True]]) (simp_all add: b)
    show ?thesis
      unfolding loop_step [OF True] ih gr g
      by (simp add: b algebra_simps)
  qed
qed

lemma fill_greedy:
  assumes "remainingBeatsInBar s < bv" "0 \<le> remainingBeatsInBar s" "2 * remainingBeatsInBar s \<in> \<int>"
  shows "checkAndFillBarWithRests bv s =
           (Some (restGroupsAt (quarterNoteSpacing s) (noteCursorX s)
                    (greedy_rests (remainingBeatsInBar s))),
            s\<lparr>currentBeatCount := currentBeatCount s + remainingBeatsInBar s,
               noteCursorX := noteCursorX s + remainingBeatsInBar s * quarterNoteSpacing s
                                + BAR_SPACING\<rparr>)"
  using assms(1) loop_greedy [OF assms(2,3), of "[]" s]
  by (simp add: checkAndFillBarWithRests_def createRemainingRests_def handleNewBar_def)


text \<open>The beat at which the bar ends is the first of the next bar.\<close>

lemma next_bar_start:
  assumes "0 \<le> c" "0 < n"
  shows "js_mod (c + (n - js_mod c n)) n = 0"
proof -
  from assms have q: "0 \<le> c / n" by simp
  then have t: "js_trunc (c / n) = \<lfloor>c / n\<rfloor>" by (simp add: js_trunc_def)
  have e: "c + (n - js_mod c n) = n * of_int (\<lfloor>c / n\<rfloor> + 1)"
    by (simp add: js_mod_def t algebra_simps)
  from assms(2) have "(n * of_int (\<lfloor>c / n\<rfloor> + 1)) / n = of_int (\<lfloor>c / n\<rfloor> + 1)"
    by simp
  moreover from q have "0 \<le> \<lfloor>c / n\<rfloor> + 1" by simp
  ultimately have "js_trunc ((n * of_int (\<lfloor>c / n\<rfloor> + 1)) / n) = \<lfloor>c / n\<rfloor> + 1"
    by (simp add: js_trunc_def)
  then show ?thesis unfolding e by (simp add: js_mod_def)
qed

lemma beat_value_pos: "0 < durationBeatValueMap d"
  by (cases d) simp_all

section \<open>The rhythm staff: overflow in the last bar\<close>

text \<open>
  C1. On a staff of one bar of four beats, \<^verbatim>\<open>drawNote(["q","q","q","h"])\<close> is claimed to
  draw three quarter notes, to fill the last beat with one quarter rest and then to fail with
  a max-beat error, there being no further bar for the half note. The code does not fail:
  \<^verbatim>\<open>checkAndFillBarWithRests\<close> opens a new bar without the test for the last bar that
  \<^verbatim>\<open>checkAndCreateNewBar\<close> makes, and the test of the beat count against the capacity
  comes before the rests are added. The call returns normally, the half note is drawn after
  the one quarter rest, and the beat count is 6 on a staff whose capacity is 4.
\<close>

theorem C1_half_note_drawn_past_last_bar:
  "(case RhythmStaff_new K \<lparr>width = w, topNumber = 4, barsCount = 1\<rparr> of
      Inl err \<Rightarrow> False
    | Inr s \<Rightarrow>
        (case drawNote K [''q'', ''q'', ''q'', ''h''] s of
           (r, s') \<Rightarrow>
             r = Inr () \<and> maxBeatCount s' = 4 \<and> currentBeatCount s' = 6
             \<and> map (\<lambda>g. (g_class g, group_glyphs g)) (noteEntries s') =
                 [(''note'', [NOTE_HEAD_QUARTER]), (''note'', [NOTE_HEAD_QUARTER]),
                  (''note'', [NOTE_HEAD_QUARTER]), (''rest'', [REST_QUARTER]),
                  (''note'', [NOTE_HEAD_HALF])]
             \<and> notesLayer s' = noteEntries s'))"
  by code_simp

text \<open>
  C2. The invariant \<open>0 \<le> currentBeatCount \<le> maxBeatCount = barsCount \<times> numerator\<close> is
  claimed to hold after every call, also after a call whose token overflows the bar. It
  does not: after the call above, and after the same call of \<^verbatim>\<open>drawRest\<close>, the beat
  count exceeds the capacity \<open>1 \<times> 4\<close>.
\<close>

theorem C2_beat_count_exceeds_capacity:
  "(case RhythmStaff_new K \<lparr>width = w, topNumber = 4, barsCount = 1\<rparr> of
      Inl err \<Rightarrow> False
    | Inr s \<Rightarrow>
        maxBeatCount s = barsCount (options s) * topNumber (options s)
        \<and> fst (drawNote K [''q'', ''q'', ''q'', ''h''] s) = Inr ()
        \<and> maxBeatCount (snd (drawNote K [''q'', ''q'', ''q'', ''h''] s))
            < currentBeatCount (snd (drawNote K [''q'', ''q'', ''q'', ''h''] s))
        \<and> fst (drawRest [''q'', ''q'', ''q'', ''h''] s) = Inr ()
        \<and> maxBeatCount (snd (drawRest [''q'', ''q'', ''q'', ''h''] s))
            < currentBeatCount (snd (drawRest [''q'', ''q'', ''q'', ''h''] s)))"
  by code_simp

text \<open>
  The test of the capacity, token by token: a well-formed token, and a beam of two notes or
  more, fails with the max-beat error exactly when the beat count has reached the capacity,
  and then leaves the staff as it was.
\<close>

lemma drawNote_max_beat_rule:
  assumes "parseDurationNoteString tok = Inr d"
  shows "(fst (drawNote K [tok] s) = Inl MaxBeatError) = (maxBeatCount s \<le> currentBeatCount s)"
    and "(fst (drawRest [tok] s) = Inl MaxBeatError) = (maxBeatCount s \<le> currentBeatCount s)"
    and "maxBeatCount s \<le> currentBeatCount s \<Longrightarrow> drawNote K [tok] s = (Inl MaxBeatError, s)"
    and "maxBeatCount s \<le> currentBeatCount s \<Longrightarrow> drawRest [tok] s = (Inl MaxBeatError, s)"
  using assms
  by (simp_all add: drawNote_def drawRest_def Let_def split_beta split: option.splits)

lemma drawBeamedNotes_max_beat_rule:
  assumes "2 \<le> noteCount" "note = ''e'' \<or> note = ''s''"
  shows "(fst (drawBeamedNotes K note noteCount s) = Inl MaxBeatError)
           = (maxBeatCount s \<le> currentBeatCount s)"
    and "maxBeatCount s \<le> currentBeatCount s \<Longrightarrow>
           drawBeamedNotes K note noteCount s = (Inl MaxBeatError, s)"
  using assms
  by (auto simp: drawBeamedNotes_def parseDurationNoteString_def Let_def split_beta)

text \<open>
  C3. Exactly \<open>N \<times> B\<close> beats are claimed to be accepted before the max-beat error. On the
  staff of one bar of four beats the four tokens \<^verbatim>\<open>q q q h\<close> are all accepted, five beats
  of them and one of filler, and the error comes only with the token after them; that token
  leaves the state as it was.
\<close>

theorem C3_six_beats_accepted_in_four:
  "(case RhythmStaff_new K \<lparr>width = w, topNumber = 4, barsCount = 1\<rparr> of
      Inl err \<Rightarrow> False
    | Inr s \<Rightarrow>
        (case drawNote K [''q'', ''q'', ''q'', ''h''] s of
           (r, s') \<Rightarrow>
             r = Inr ()
             \<and> topNumber (options s') * barsCount (options s') = 4
             \<and> currentBeatCount s' = 6
             \<and> drawNote K [''q''] s' = (Inl MaxBeatError, s')))"
  by code_simp

section \<open>The rhythm staff: filling a bar with rests\<close>

text \<open>
  C4, as claimed: whenever a token's beat value exceeds the beats that remain in the bar,
  the filler rests sum to exactly the remainder. The fillers are the half, the quarter and
  the eighth rest only, and the loop adds an eighth rest for whatever is left below one beat:
  after \<^verbatim>\<open>drawBeamedNotes("s", 3)\<close> 13/4 beats remain in the bar, and a whole note then
  gets a half, a quarter and an eighth rest before it, 7/2 beats.
\<close>

theorem C4_fillers_exceed_remainder_counterexample:
  "(case RhythmStaff_new sampleConstants \<lparr>width = 300, topNumber = 4, barsCount = 2\<rparr> of
      Inl err \<Rightarrow> False
    | Inr s \<Rightarrow>
        (case drawBeamedNotes sampleConstants ''s'' 3 s of
           (r1, s1) \<Rightarrow>
             remainingBeatsInBar s1 = 13 / 4
             \<and> remainingBeatsInBar s1 < durationBeatValueMap W
             \<and> (case drawNote sampleConstants [''w''] s1 of
                   (r2, s2) \<Rightarrow>
                     r2 = Inr ()
                     \<and> map group_glyphs (drop (length (noteEntries s1)) (noteEntries s2)) =
                         [[REST_HALF], [REST_QUARTER], [REST_EIGHTH], [NOTE_HEAD_WHOLE]]
                     \<and> currentBeatCount s2 - durationBeatValueMap W - currentBeatCount s1 = 7 / 2
                     \<and> currentBeatCount s2 - durationBeatValueMap W - currentBeatCount s1
                         \<noteq> remainingBeatsInBar s1)))"
  by code_simp

text \<open>
  C4, amended. A token of \<^verbatim>\<open>drawNote\<close> or \<^verbatim>\<open>drawRest\<close>, alone or inside a batch,
  whose beat value exceeds the beats that remain in the bar, when that remainder is a whole
  number of eighth notes (as it is unless sixteenth-note beams have left the beat count at
  an odd multiple of 1/4) and the staff has room for the token after the bar: the rests of
  the greedy decomposition of the remainder over half, quarter and eighth are drawn from the
  cursor on, and they sum to the remainder; the bar is advanced, the beat count standing at
  the first beat of the next bar, within the capacity, and the cursor past the bar gap; and
  the token is placed there, in the new bar. The rests and the token are appended to the
  entries in that order, and the loop goes on with the tokens that follow.
\<close>

theorem C4_overflow_fills_bar_greedily:
  assumes num: "topNumber (options s) = 3 \<or> topNumber (options s) = 4"
    and nonneg: "0 \<le> currentBeatCount s"
    and tok: "parseDurationNoteString tok = Inr d"
    and over: "remainingBeatsInBar s < durationBeatValueMap d"
    and grid: "2 * remainingBeatsInBar s \<in> \<int>"
    and fits: "currentBeatCount s + remainingBeatsInBar s + durationBeatValueMap d
                 \<le> maxBeatCount s"
  shows "sum_list (map durationBeatValueMap (greedy_rests (remainingBeatsInBar s)))
           = remainingBeatsInBar s
    \<and> js_mod (currentBeatCount s + remainingBeatsInBar s) (topNumber (options s)) = 0
    \<and> currentBeatCount s + remainingBeatsInBar s < maxBeatCount s
    \<and> (let rests = restGroupsAt (quarterNoteSpacing s) (noteCursorX (checkAndCreateNewBar s))
                       (greedy_rests (remainingBeatsInBar s));
            x = noteCursorX (checkAndCreateNewBar s)
                  + remainingBeatsInBar s * quarterNoteSpacing s + BAR_SPACING;
            note = renderNote K d (setTranslate x 0 (createGroup ''note''));
            rest = setTranslate x 0 (renderRest d (createGroup ''rest''));
            afterNote =
              s\<lparr>noteCursorX := x + quarterNoteSpacing s * durationBeatValueMap d,
                 currentBeatCount :=
                   currentBeatCount s + remainingBeatsInBar s + durationBeatValueMap d,
                 noteEntries := noteEntries s @ rests @ [note]\<rparr>;
            afterRest =
              s\<lparr>noteCursorX := x + durationBeatValueMap d * quarterNoteSpacing s,
                 currentBeatCount :=
                   currentBeatCount s + remainingBeatsInBar s + durationBeatValueMap d,
                 noteEntries := noteEntries s @ rests @ [rest]\<rparr>
        in (\<forall>toks noteGroups.
              drawNote_loop K (tok # toks) noteGroups s
                = drawNote_loop K toks (noteGroups @ rests @ [note]) afterNote)
         \<and> (\<forall>toks restGroups.
              drawRest_loop (tok # toks) restGroups s
                = drawRest_loop toks (restGroups @ rests @ [rest]) afterRest)
         \<and> drawNote K [tok] s
             = (Inr (), afterNote\<lparr>notesLayer := notesLayer s @ rests @ [note]\<rparr>)
         \<and> drawRest [tok] s
             = (Inr (), afterRest\<lparr>notesLayer := notesLayer s @ rests @ [rest]\<rparr>))"
proof -
  let ?s1 = "checkAndCreateNewBar s"
  let ?r = "remainingBeatsInBar s"
  let ?rests = "restGroupsAt (quarterNoteSpacing s) (noteCursorX ?s1) (greedy_rests ?r)"
  let ?x = "noteCursorX ?s1 + ?r * quarterNoteSpacing s + BAR_SPACING"
  let ?note = "renderNote K d (setTranslate ?x 0 (createGroup ''note''))"
  let ?rest = "setTranslate ?x 0 (renderRest d (createGroup ''rest''))"
  let ?afterNote = "s\<lparr>noteCursorX := ?x + quarterNoteSpacing s * durationBeatValueMap d,
                 currentBeatCount := currentBeatCount s + ?r + durationBeatValueMap d,
                 noteEntries := noteEntries s @ ?rests @ [?note]\<rparr>"
  let ?afterRest = "s\<lparr>noteCursorX := ?x + durationBeatValueMap d * quarterNoteSpacing s,
                 currentBeatCount := currentBeatCount s + ?r + durationBeatValueMap d,
                 noteEntries := noteEntries s @ ?rests @ [?rest]\<rparr>"
  have pos: "0 < ?r" by (rule remaining_range [OF num nonneg])
  from num have top: "0 < topNumber (options s)" by auto
  have room: "currentBeatCount s < maxBeatCount s"
    and further: "currentBeatCount s + ?r < maxBeatCount s"
    using fits pos beat_value_pos [of d] by simp_all
  have start: "js_mod (currentBeatCount s + ?r) (topNumber (options s)) = 0"
    unfolding remainingBeatsInBar_def by (rule next_bar_start [OF nonneg top])
  have total: "sum_list (map durationBeatValueMap (greedy_rests ?r)) = ?r"
    using pos grid by (intro greedy_rests_sum) simp_all
  have same: "remainingBeatsInBar ?s1 = ?r" "currentBeatCount ?s1 = currentBeatCount s"
    "quarterNoteSpacing ?s1 = quarterNoteSpacing s" "noteEntries ?s1 = noteEntries s"
    "notesLayer ?s1 = notesLayer s"
    by (simp_all add: checkAndCreateNewBar_def handleNewBar_def remainingBeatsInBar_def Let_def)
  have f: "checkAndFillBarWithRests (durationBeatValueMap d) ?s1 =
           (Some ?rests,
            ?s1\<lparr>currentBeatCount := currentBeatCount s + ?r,
               noteCursorX := ?x\<rparr>)"
    using fill_greedy [of ?s1 "durationBeatValueMap d"] over grid pos by (simp add: same)
  have n: "drawNote_loop K (tok # toks) noteGroups s
            = drawNote_loop K toks (noteGroups @ ?rests @ [?note]) ?afterNote" for toks noteGroups
    using room tok
    by (simp add: f translateGroupByDuration_def same Let_def checkAndCreateNewBar_cursor)
  have rr: "drawRest_loop (tok # toks) restGroups s
            = drawRest_loop toks (restGroups @ ?rests @ [?rest]) ?afterRest" for toks restGroups
    using room tok
    by (simp add: f same Let_def checkAndCreateNewBar_cursor)
  have n1: "drawNote K [tok] s
             = (Inr (), ?afterNote\<lparr>notesLayer := notesLayer s @ ?rests @ [?note]\<rparr>)"
    unfolding drawNote_def n by (simp add: commitElementsToDOM_def)
  have rr1: "drawRest [tok] s
             = (Inr (), ?afterRest\<lparr>notesLayer := notesLayer s @ ?rests @ [?rest]\<rparr>)"
    unfolding drawRest_def rr by (simp add: commitElementsToDOM_def)
  from total start further n rr n1 rr1 show ?thesis
    unfolding Let_def by blast
qed

text \<open>
  With numerator 4 and one beat remaining, a half note gets exactly one quarter rest: on the
  staff of two bars after three quarter notes, the rest is drawn at 96, where the third
  quarter ends, and the half note at 140, past the bar gap, the beat count going from 3 to 6.
\<close>

lemma sampleRhythmStaff_constructed:
  "RhythmStaff_new sampleConstants (defaultRhythmStaffOptions\<lparr>width := 300\<rparr>)
     = Inr sampleRhythmStaff"
  by code_simp

lemma staffAfterThreeQuarters_eval:
  "currentBeatCount staffAfterThreeQuarters = 3
   \<and> maxBeatCount staffAfterThreeQuarters = 8
   \<and> topNumber (options staffAfterThreeQuarters) = 4
   \<and> remainingBeatsInBar staffAfterThreeQuarters = 1
   \<and> quarterNoteSpacing staffAfterThreeQuarters = 32
   \<and> noteCursorX staffAfterThreeQuarters = 96
   \<and> noteCursorX (checkAndCreateNewBar staffAfterThreeQuarters) = 96"
  by code_simp

lemma greedy_rests_one: "greedy_rests 1 = [Q]"
  by (simp add: greedy_rests.simps)

theorem C4_overflow_witness:
  "remainingBeatsInBar staffAfterThreeQuarters = 1
   \<and> parseDurationNoteString ''h'' = Inr H
   \<and> durationBeatValueMap H = 2
   \<and> currentBeatCount staffAfterThreeQuarters + remainingBeatsInBar staffAfterThreeQuarters
        + durationBeatValueMap H \<le> maxBeatCount staffAfterThreeQuarters
   \<and> greedy_rests (remainingBeatsInBar staffAfterThreeQuarters) = [Q]
   \<and> fst (drawNote sampleConstants [''h''] staffAfterThreeQuarters) = Inr ()
   \<and> map (\<lambda>g. (g_class g, group_glyphs g, g_translate g))
        (drop (length (noteEntries staffAfterThreeQuarters))
           (noteEntries (snd (drawNote sampleConstants [''h''] staffAfterThreeQuarters))))
       = [(''rest'', [REST_QUARTER], Some (96, 0)), (''note'', [NOTE_HEAD_HALF], Some (140, 0))]
   \<and> currentBeatCount (snd (drawNote sampleConstants [''h''] staffAfterThreeQuarters)) = 6"
proof -
  note e = staffAfterThreeQuarters_eval
  have h1: "topNumber (options staffAfterThreeQuarters) = 3
      \<or> topNumber (options staffAfterThreeQuarters) = 4" using e by simp
  have h2: "0 \<le> currentBeatCount staffAfterThreeQuarters" using e by simp
  have h3: "parseDurationNoteString ''h'' = Inr H" by (simp add: parseDurationNoteString_def)
  have h4: "remainingBeatsInBar staffAfterThreeQuarters < durationBeatValueMap H"
    using e by simp
  have h5: "2 * remainingBeatsInBar staffAfterThreeQuarters \<in> \<int>" using e by simp
  have h6: "currentBeatCount staffAfterThreeQuarters + remainingBeatsInBar staffAfterThreeQuarters
        + durationBeatValueMap H \<le> maxBeatCount staffAfterThreeQuarters"
    using e by simp
  from C4_overflow_fills_bar_greedily [OF h1 h2 h3 h4 h5 h6, of sampleConstants]
  have d: "drawNote sampleConstants [''h''] staffAfterThreeQuarters =
     (Inr (),
      staffAfterThreeQuarters
        \<lparr>currentBeatCount := 3 + 1 + 2,
           noteCursorX := 96 + 1 * 32 + BAR_SPACING + 32 * 2,
           noteEntries := noteEntries staffAfterThreeQuarters
             @ restGroupsAt 32 96 [Q]
             @ [renderNote sampleConstants H
                  (setTranslate (96 + 1 * 32 + BAR_SPACING) 0 (createGroup ''note''))],
           notesLayer := notesLayer staffAfterThreeQuarters
             @ restGroupsAt 32 96 [Q]
             @ [renderNote sampleConstants H
                  (setTranslate (96 + 1 * 32 + BAR_SPACING) 0 (createGroup ''note''))]\<rparr>)"
    unfolding Let_def using e by (simp add: greedy_rests_one)
  have "map (\<lambda>g. (g_class g, group_glyphs g, g_translate g))
          (restGroupsAt 32 96 [Q]
             @ [renderNote sampleConstants H
                  (setTranslate (96 + 1 * 32 + BAR_SPACING) 0 (createGroup ''note''))])
       = [(''rest'', [REST_QUARTER], Some (96, 0)), (''note'', [NOTE_HEAD_HALF], Some (140, 0))]"
    by code_simp
  with d h3 h6 e show ?thesis by (simp add: greedy_rests_one)
qed

section \<open>The rhythm staff: beams\<close>

text \<open>
  With two beats left in the bar, a beam of eight eighth notes is cut to four notes and the
  beat count advances by two.
\<close>

lemma checkAndCreateNewBar_same:
  "remainingBeatsInBar (checkAndCreateNewBar s) = remainingBeatsInBar s"
  "currentBeatCount (checkAndCreateNewBar s) = currentBeatCount s"
  "noteEntries (checkAndCreateNewBar s) = noteEntries s"
  by (simp_all add: checkAndCreateNewBar_def handleNewBar_def remainingBeatsInBar_def Let_def)

lemma beam_of_eight_in_two_beats:
  assumes "currentBeatCount s < maxBeatCount s" "remainingBeatsInBar s = 2"
  shows "fst (drawBeamedNotes K ''e'' 8 s) = Inr ()
       \<and> currentBeatCount (snd (drawBeamedNotes K ''e'' 8 s)) = currentBeatCount s + 2
       \<and> group_glyphs (last (noteEntries (snd (drawBeamedNotes K ''e'' 8 s))))
            = replicate 4 NOTE_HEAD_QUARTER"
  using assms
  by (simp add: drawBeamedNotes_def parseDurationNoteString_def Let_def split_beta
      checkAndCreateNewBar_same commitElementsToDOM_def numeral_eq_Suc
      group_glyphs_def drawGlyph_def drawStem_def drawLine_def appendChild_def renderBeamRect_def
      drawRect_def setTranslate_def createGroup_def)

text \<open>
  C5. \<^verbatim>\<open>drawBeamedNotes\<close> is claimed to cap the notes it draws to the beats that remain
  in the bar, so that the group never crosses a bar line, also when sixteenth-note beams have
  left the beat count off the eighth-note grid. The cap is the quotient of the remaining
  beats by the beat value, which is then not whole, and the loop runs while its counter is
  below it: on a staff of two bars of four beats, after \<^verbatim>\<open>drawBeamedNotes("s", 3)\<close> the
  count is 3/4 and 13/4 beats remain; \<^verbatim>\<open>drawBeamedNotes("e", 8)\<close> then draws seven eighth
  notes, 7/2 beats, and the count is 17/4, past the bar line at 4.
\<close>

theorem C5_beam_crosses_bar_line:
  "(case RhythmStaff_new K \<lparr>width = w, topNumber = 4, barsCount = 2\<rparr> of
      Inl err \<Rightarrow> False
    | Inr s \<Rightarrow>
        (case drawBeamedNotes K ''s'' 3 s of
           (r1, s1) \<Rightarrow>
             r1 = Inr () \<and> currentBeatCount s1 = 3 / 4 \<and> remainingBeatsInBar s1 = 13 / 4
             \<and> (case drawBeamedNotes K ''e'' 8 s1 of
                   (r2, s2) \<Rightarrow>
                     r2 = Inr () \<and> currentBeatCount s2 = 17 / 4
                     \<and> group_glyphs (last (noteEntries s2)) = replicate 7 NOTE_HEAD_QUARTER)))"
  by code_simp

section \<open>Batches: what stays when a token fails\<close>

lemma MusicStaff_commit_Nil [simp]: "MusicStaff_commit [] s = s"
  by (simp add: MusicStaff_commit_def)

lemma commitElementsToDOM_Nil [simp]: "commitElementsToDOM [] s = s"
  by (simp add: commitElementsToDOM_def)










section \<open>Index-addressed changes\<close>

text \<open>
  C8. \<^verbatim>\<open>changeNoteByIndex\<close> is claimed to fail with the bounds error for every index
  out of range, negative ones included. The guard is \<^verbatim>\<open>noteIndex >= this.noteEntries.length\<close>
  only: an index at or past the end gives the bounds error and leaves the staff as it was,
  but a negative index passes the guard, the new note is parsed (a malformed one fails there)
  and rendered, and the call fails with the \<^verbatim>\<open>TypeError\<close> of reading the \<^verbatim>\<open>xPos\<close> of
  an entry that is not there. The staff is unchanged in both cases.
\<close>

theorem C8_negative_index_is_not_a_bounds_error:
  "changeNoteByIndex D K noteString (- 1 - int n) s =
     (case parseNoteString D noteString of
        Inl err \<Rightarrow> (Inl err, s)
      | Inr noteObj \<Rightarrow> (Inl TypeError, s))
   \<and> changeNoteByIndex D K noteString (int (length (staffNoteEntries s)) + int n) s
       = (Inl BoundsError, s)"
  by (simp add: changeNoteByIndex_def split: sum.splits)

section \<open>The staff type at construction\<close>

text \<open>
  C10. A \<^verbatim>\<open>MusicStaff\<close> or a \<^verbatim>\<open>ScrollingStaff\<close> constructed with a staff type other
  than treble, bass, alto and grand throws: no instance comes back, and the renderer was
  created but nothing was asked of it, the staff least of all. Each of the four values gives
  an instance with its strategy: the single-staff strategy of that clef for treble, bass and
  alto, the grand strategy for grand.
\<close>

theorem C10_unsupported_staff_type_throws:
  assumes "staffType opts \<notin> {''treble'', ''bass'', ''alto'', ''grand''}"
  shows "MusicStaff_new K opts = (Inl ConfigError, [NewSVGRenderer (staffWidth opts)])
       \<and> ScrollingStaff_new K opts = (Inl ConfigError, [NewSVGRenderer (staffWidth opts)])
       \<and> map_sum id strategyInstance (fst (MusicStaff_new K (opts\<lparr>staffType := ''treble''\<rparr>)))
           = Inr (SingleStaffStrategy treble)
       \<and> map_sum id strategyInstance (fst (MusicStaff_new K (opts\<lparr>staffType := ''bass''\<rparr>)))
           = Inr (SingleStaffStrategy bass)
       \<and> map_sum id strategyInstance (fst (MusicStaff_new K (opts\<lparr>staffType := ''alto''\<rparr>)))
           = Inr (SingleStaffStrategy alto)
       \<and> map_sum id strategyInstance (fst (MusicStaff_new K (opts\<lparr>staffType := ''grand''\<rparr>)))
           = Inr (GrandStaffStrategy grand)
       \<and> map_sum id scrollStrategyInstance
             (fst (ScrollingStaff_new K (opts\<lparr>staffType := ''treble''\<rparr>)))
           = Inr (SingleStaffStrategy treble)
       \<and> map_sum id scrollStrategyInstance
             (fst (ScrollingStaff_new K (opts\<lparr>staffType := ''bass''\<rparr>)))
           = Inr (SingleStaffStrategy bass)
       \<and> map_sum id scrollStrategyInstance
             (fst (ScrollingStaff_new K (opts\<lparr>staffType := ''alto''\<rparr>)))
           = Inr (SingleStaffStrategy alto)
       \<and> map_sum id scrollStrategyInstance
             (fst (ScrollingStaff_new K (opts\<lparr>staffType := ''grand''\<rparr>)))
           = Inr (GrandStaffStrategy grand)"
proof -
  from assms have "selectStrategy (staffType opts) = None"
    by (simp add: selectStrategy_def)
  then have "MusicStaff_new K opts = (Inl ConfigError, [NewSVGRenderer (staffWidth opts)])"
    and "ScrollingStaff_new K opts = (Inl ConfigError, [NewSVGRenderer (staffWidth opts)])"
    by (simp_all add: MusicStaff_new_def ScrollingStaff_new_def)
  then show ?thesis
    by (simp add: MusicStaff_new_def ScrollingStaff_new_def selectStrategy_def)
qed

theorem C10_unsupported_staff_type_witness:
  "''tenor'' \<notin> {''treble'', ''bass'', ''alto'', ''grand''}
   \<and> MusicStaff_new sampleConstants
         \<lparr>staffWidth = 300, staffType = ''tenor'', spaceAbove = 0, spaceBelow = 0\<rparr>
       = (Inl ConfigError, [NewSVGRenderer 300])
   \<and> ScrollingStaff_new sampleConstants
         \<lparr>staffWidth = 300, staffType = ''tenor'', spaceAbove = 0, spaceBelow = 0\<rparr>
       = (Inl ConfigError, [NewSVGRenderer 300])"
  using C10_unsupported_staff_type_throws
    [of "\<lparr>staffWidth = 300, staffType = ''tenor'', spaceAbove = 0, spaceBelow = 0\<rparr>"
        sampleConstants]
  by simp

section \<open>Numbers in the text of a transform\<close>

declare decimalDigits.simps [simp del]














section \<open>Chords: close notes\<close>

declare chordOffsetCloseNotes_loop.simps [simp del]












section \<open>Chords: consecutive accidentals\<close>

lemma Min_insert_absorb:
  fixes a b :: rat
  assumes "finite X" "a \<le> b"
  shows "Min (insert a (insert b X)) = Min (insert a X)"
proof -
  have "Min (insert b (insert a X)) = min b (Min (insert a X))"
    using assms(1) by (intro Min_insert) simp_all
  moreover have "Min (insert a X) \<le> a" using assms(1) by (intro Min_le) simp_all
  ultimately show ?thesis using assms(2) by (simp add: insert_commute min_def)
qed

lemma Min_insert_min:
  fixes a b :: rat
  assumes "finite X"
  shows "Min (insert (min a b) X) = Min (insert a (insert b X))"
  using assms by (cases "X = {}") (simp_all add: min.assoc)

lemma consecutive_loop_entries:
  "fst (chordOffsetConsecutiveAccidentals_loop K ns off mx cnt) =
     map2 (applyConsecutiveOffset K) (consecutiveXOffsets K ns off cnt) ns"
  by (induction ns arbitrary: off mx cnt) (simp_all add: Let_def split_beta)

lemma consecutive_loop_max:
  assumes m: "CHORD_MAX_CONSECUTIVE_ACCIDENTALS K = of_nat m" "1 \<le> m"
  shows "cnt \<le> m \<Longrightarrow> (cnt = 0 \<Longrightarrow> off = 0) \<Longrightarrow> (0 < cnt \<Longrightarrow> mx \<le> ACCIDENTAL_OFFSET_X K) \<Longrightarrow> mx \<le> 0 \<Longrightarrow>
     snd (chordOffsetConsecutiveAccidentals_loop K ns off mx cnt) =
       Min (set (mx # consecutiveXOffsets K ns off cnt))"
proof (induction ns arbitrary: off mx cnt)
  case Nil
  show ?case by simp
next
  case (Cons e ns)
  let ?A = "ACCIDENTAL_OFFSET_X K"
  show ?case
  proof (cases "accidental (entryNote e) \<noteq> None")
    case False
    then have "snd (chordOffsetConsecutiveAccidentals_loop K (e # ns) off mx cnt)
        = snd (chordOffsetConsecutiveAccidentals_loop K ns 0 mx 0)"
      by (simp add: Let_def split_beta)
    also have "\<dots> = Min (set (mx # consecutiveXOffsets K ns 0 0))"
      using Cons.prems by (intro Cons.IH) simp_all
    also have "\<dots> = Min (set (mx # consecutiveXOffsets K (e # ns) off cnt))"
    proof -
      have tr: "consecutiveXOffsets K (e # ns) off cnt = 0 # consecutiveXOffsets K ns 0 0"
        using False by (simp add: Let_def)
      show ?thesis
        by (simp only: tr list.simps(15) Min_insert_absorb [OF finite_set Cons.prems(4)])
    qed
    finally show ?thesis .
  next
    case acc: True
    show ?thesis
    proof (cases "cnt < m")
      case True
      then have "snd (chordOffsetConsecutiveAccidentals_loop K (e # ns) off mx cnt)
          = snd (chordOffsetConsecutiveAccidentals_loop K ns (off + ?A) (min mx (off + ?A)) (cnt + 1))"
        using acc m by (simp add: Let_def split_beta)
      also have "\<dots> = Min (set (min mx (off + ?A) # consecutiveXOffsets K ns (off + ?A) (cnt + 1)))"
      proof (intro Cons.IH)
        show "cnt + 1 \<le> m" using True by simp
        show "cnt + 1 = 0 \<Longrightarrow> off + ?A = 0" by simp
        show "min mx (off + ?A) \<le> ?A"
          using Cons.prems(2,3) by (cases "cnt = 0") (auto simp: min_def)
        show "min mx (off + ?A) \<le> 0" using Cons.prems(4) by (simp add: min_def)
      qed
      also have "\<dots> = Min (set (mx # consecutiveXOffsets K (e # ns) off cnt))"
      proof -
        have tr: "consecutiveXOffsets K (e # ns) off cnt =
            (off + ?A) # consecutiveXOffsets K ns (off + ?A) (cnt + 1)"
          using acc True m by (simp add: Let_def)
        show ?thesis
          by (simp only: tr list.simps(15) Min_insert_min [OF finite_set])
      qed
      finally show ?thesis .
    next
      case False
      with Cons.prems(1) have eq: "cnt = m" by simp
      then have "snd (chordOffsetConsecutiveAccidentals_loop K (e # ns) off mx cnt)
          = snd (chordOffsetConsecutiveAccidentals_loop K ns ?A mx 1)"
        using acc m by (simp add: Let_def split_beta)
      also have "\<dots> = Min (set (mx # consecutiveXOffsets K ns ?A 1))"
        using Cons.prems m eq by (intro Cons.IH) simp_all
      also have "\<dots> = Min (set (mx # consecutiveXOffsets K (e # ns) off cnt))"
      proof -
        from Cons.prems(3) eq m have le: "mx \<le> ?A" by simp
        have tr: "consecutiveXOffsets K (e # ns) off cnt = ?A # consecutiveXOffsets K ns ?A 1"
          using acc eq m by (simp add: Let_def)
        show ?thesis
          by (simp only: tr list.simps(15) Min_insert_absorb [OF finite_set le])
      qed
      finally show ?thesis .
    qed
  qed
qed

text \<open>An entry without accidental resets the run, whatever came before.\<close>

lemma consecutiveXOffsets_reset:
  "i < length ns \<Longrightarrow> accidental (entryNote (ns ! i)) = None \<Longrightarrow>
     consecutiveXOffsets K ns off cnt ! i = 0"
proof (induction ns arbitrary: i off cnt)
  case Nil
  then show ?case by simp
next
  case (Cons e ns)
  show ?case
  proof (cases i)
    case 0
    with Cons.prems show ?thesis by (simp add: Let_def)
  next
    case (Suc j)
    with Cons.prems show ?thesis by (simp add: Let_def split_beta Cons.IH)
  qed
qed

lemma consecutiveXOffsets_length [simp]:
  "length (consecutiveXOffsets K ns off cnt) = length ns"
  by (induction ns arbitrary: off cnt) (simp_all add: Let_def split_beta)

text \<open>After an entry without accidental the offsets are those of a run that starts afresh.\<close>

lemma consecutiveXOffsets_after_reset:
  "accidental (entryNote e0) = None \<Longrightarrow>
     consecutiveXOffsets K (pre @ e0 # rest) off cnt =
       consecutiveXOffsets K pre off cnt @ 0 # consecutiveXOffsets K rest 0 0"
  by (induction pre arbitrary: off cnt) (simp_all add: Let_def split_beta)

text \<open>A run of accidentals: the offset grows by the unit up to the cap and then restarts.\<close>

lemma consecutiveXOffsets_run:
  assumes m: "CHORD_MAX_CONSECUTIVE_ACCIDENTALS K = of_nat m" "1 \<le> m"
  shows "c \<le> m \<Longrightarrow> off = of_nat c * ACCIDENTAL_OFFSET_X K \<Longrightarrow> j < length run \<Longrightarrow>
     \<forall>e \<in> set run. accidental (entryNote e) \<noteq> None \<Longrightarrow>
     consecutiveXOffsets K (run @ post) off c ! j
       = of_nat ((c + j) mod m + 1) * ACCIDENTAL_OFFSET_X K"
proof (induction run arbitrary: c off j)
  case Nil
  then show ?case by simp
next
  case (Cons e run)
  let ?A = "ACCIDENTAL_OFFSET_X K"
  from Cons.prems(4) have acc: "accidental (entryNote e) \<noteq> None" by simp
  show ?case
  proof (cases "c < m")
    case True
    have step: "consecutiveXOffsets K ((e # run) @ post) off c =
        (off + ?A) # consecutiveXOffsets K (run @ post) (off + ?A) (c + 1)"
      using acc True m by (simp add: Let_def)
    have off1: "off + ?A = of_nat (c + 1) * ?A" using Cons.prems(2) by (simp add: algebra_simps)
    show ?thesis
    proof (cases j)
      case 0
      with step off1 True show ?thesis by simp
    next
      case (Suc k)
      with Cons.prems have "consecutiveXOffsets K (run @ post) (off + ?A) (c + 1) ! k
          = of_nat ((c + 1 + k) mod m + 1) * ?A"
        using True off1 by (intro Cons.IH) simp_all
      with step Suc show ?thesis by simp
    qed
  next
    case False
    with Cons.prems(1) have eq: "c = m" by simp
    have step: "consecutiveXOffsets K ((e # run) @ post) off c =
        ?A # consecutiveXOffsets K (run @ post) ?A 1"
      using acc eq m by (simp add: Let_def)
    show ?thesis
    proof (cases j)
      case 0
      with step eq show ?thesis by simp
    next
      case (Suc k)
      have "consecutiveXOffsets K ((e # run) @ post) off c ! j
          = consecutiveXOffsets K (run @ post) ?A 1 ! k"
        using step Suc by simp
      also from Suc Cons.prems have "\<dots> = of_nat ((1 + k) mod m + 1) * ?A"
        using m by (intro Cons.IH) simp_all
      also have "(1 + k) mod m = (c + j) mod m"
      proof -
        have "(m + (1 + k)) mod m = (1 + k) mod m" by (rule mod_add_self1)
        with eq Suc show ?thesis by (simp add: add.commute)
      qed
      finally show ?thesis .
    qed
  qed
qed


text \<open>
  C7, as claimed: the pass returns the most negative cumulative offset reached. It returns
  that value negated, \<^verbatim>\<open>return -maxConsecutiveXOffset\<close>: for two accidentals in a row, with
  a base unit of \<open>-10\<close>, the offsets reached are \<open>-10\<close> and \<open>-20\<close> and the pass returns 20.
\<close>

theorem C7_returns_magnitude_counterexample:
  "(case renderChord_members sampleDeps sampleConstants sampleStrategy [''C#4q'', ''E#4q''] of
      Inl err \<Rightarrow> False
    | Inr noteObjs \<Rightarrow>
        ACCIDENTAL_OFFSET_X sampleConstants = - 10
        \<and> consecutiveXOffsets sampleConstants noteObjs 0 0 = [- 10, - 20]
        \<and> snd (chordOffsetConsecutiveAccidentals sampleConstants noteObjs) = 20
        \<and> snd (chordOffsetConsecutiveAccidentals sampleConstants noteObjs) \<noteq> - 20)"
  by code_simp

text \<open>
  C7, amended, for a maximum run length that is a whole number \<open>m \<ge> 1\<close>: every entry gets
  the offset of its round (its accidental, when the offset is not 0, is put at the offset
  less the base unit); an entry without accidental has offset 0 and resets the run; in a run
  of accidentals that starts the chord or follows an entry without accidental, the \<open>j\<close>-th
  entry (from 0) has \<open>(j mod m) + 1\<close> base units, growing up to \<open>m\<close> units and then starting
  again from one; the pass returns the negation of the least of 0 and the offsets reached,
  and 0 for a chord without accidentals.
\<close>

theorem C7_consecutive_accidentals:
  assumes m: "CHORD_MAX_CONSECUTIVE_ACCIDENTALS K = of_nat m" "1 \<le> m"
  shows "fst (chordOffsetConsecutiveAccidentals K ns) =
           map2 (applyConsecutiveOffset K) (consecutiveXOffsets K ns 0 0) ns
       \<and> snd (chordOffsetConsecutiveAccidentals K ns) =
           - Min (set (0 # consecutiveXOffsets K ns 0 0))
       \<and> (\<forall>i < length ns. accidental (entryNote (ns ! i)) = None
             \<longrightarrow> consecutiveXOffsets K ns 0 0 ! i = 0)
       \<and> (ns = pre @ run @ post
            \<and> (pre = [] \<or> accidental (entryNote (last pre)) = None)
            \<and> (\<forall>e \<in> set run. accidental (entryNote e) \<noteq> None)
            \<and> j < length run
           \<longrightarrow> consecutiveXOffsets K ns 0 0 ! (length pre + j)
                 = of_nat (j mod m + 1) * ACCIDENTAL_OFFSET_X K)
       \<and> ((\<forall>e \<in> set ns. accidental (entryNote e) = None)
           \<longrightarrow> snd (chordOffsetConsecutiveAccidentals K ns) = 0)"
proof -
  let ?tr = "consecutiveXOffsets K ns 0 0"
  have a: "fst (chordOffsetConsecutiveAccidentals K ns) = map2 (applyConsecutiveOffset K) ?tr ns"
    by (simp add: chordOffsetConsecutiveAccidentals_def split_beta consecutive_loop_entries)
  have "snd (chordOffsetConsecutiveAccidentals_loop K ns 0 0 0) = Min (set (0 # ?tr))"
    by (rule consecutive_loop_max [OF m]) simp_all
  then have b: "snd (chordOffsetConsecutiveAccidentals K ns) = - Min (set (0 # ?tr))"
    by (simp add: chordOffsetConsecutiveAccidentals_def split_beta)
  have c: "\<forall>i < length ns. accidental (entryNote (ns ! i)) = None \<longrightarrow> ?tr ! i = 0"
    by (simp add: consecutiveXOffsets_reset)
  have d: "ns = pre @ run @ post
            \<and> (pre = [] \<or> accidental (entryNote (last pre)) = None)
            \<and> (\<forall>e \<in> set run. accidental (entryNote e) \<noteq> None)
            \<and> j < length run
           \<longrightarrow> ?tr ! (length pre + j) = of_nat (j mod m + 1) * ACCIDENTAL_OFFSET_X K"
  proof (intro impI, elim conjE)
    assume ns: "ns = pre @ run @ post"
      and pre: "pre = [] \<or> accidental (entryNote (last pre)) = None"
      and run: "\<forall>e \<in> set run. accidental (entryNote e) \<noteq> None"
      and j: "j < length run"
    have fresh: "consecutiveXOffsets K (run @ post) 0 0 ! j
        = of_nat ((0 + j) mod m + 1) * ACCIDENTAL_OFFSET_X K"
      using j run by (intro consecutiveXOffsets_run [OF m]) simp_all
    show "?tr ! (length pre + j) = of_nat (j mod m + 1) * ACCIDENTAL_OFFSET_X K"
    proof (cases "pre = []")
      case True
      with ns fresh show ?thesis by simp
    next
      case False
      with pre have none: "accidental (entryNote (last pre)) = None" by simp
      from False have split: "pre = butlast pre @ [last pre]" by simp
      have "ns = butlast pre @ last pre # (run @ post)"
        using ns split by (metis append.assoc append_Cons append_Nil)
      then have "?tr = consecutiveXOffsets K (butlast pre) 0 0
            @ 0 # consecutiveXOffsets K (run @ post) 0 0"
        using consecutiveXOffsets_after_reset [OF none] by simp
      moreover from False have "length pre = length (butlast pre) + 1" by simp
      ultimately have "?tr ! (length pre + j) = consecutiveXOffsets K (run @ post) 0 0 ! j"
        by (simp add: nth_append)
      with fresh show ?thesis by simp
    qed
  qed
  have e: "(\<forall>e \<in> set ns. accidental (entryNote e) = None)
           \<longrightarrow> snd (chordOffsetConsecutiveAccidentals K ns) = 0"
  proof
    assume none: "\<forall>e \<in> set ns. accidental (entryNote e) = None"
    have "set ?tr \<subseteq> {0}"
    proof
      fix x assume "x \<in> set ?tr"
      then obtain i where i: "i < length ns" "?tr ! i = x"
        by (auto simp: in_set_conv_nth)
      with none have "accidental (entryNote (ns ! i)) = None" by simp
      with i consecutiveXOffsets_reset [of i ns K 0 0] show "x \<in> {0}" by simp
    qed
    then have "insert 0 (set ?tr) = {0}" by auto
    with b show "snd (chordOffsetConsecutiveAccidentals K ns) = 0" by simp
  qed
  from a b c d e show ?thesis by blast
qed

lemma sampleAccidentalChord_eval:
  "consecutiveXOffsets sampleConstants sampleAccidentalChord 0 0 = [- 10, - 20, - 30, - 10, - 20]
   \<and> snd (chordOffsetConsecutiveAccidentals sampleConstants sampleAccidentalChord) = 30
   \<and> map (\<lambda>e. findAccidental (g_children (gElement e)))
        (fst (chordOffsetConsecutiveAccidentals sampleConstants sampleAccidentalChord))
      = [Some (Some 0), Some (Some (- 10)), Some (Some (- 20)), Some (Some 0), Some (Some (- 10))]
   \<and> length sampleAccidentalChord = 5
   \<and> list_all (\<lambda>e. accidental (entryNote e) \<noteq> None) sampleAccidentalChord"
  by code_simp

text \<open>
  Five accidentals in a row with a maximum run length of 3 and a base unit of \<open>-10\<close>: the
  offsets are \<open>-10, -20, -30, -10, -20\<close>, the fourth entry starting again from one unit,
  and the pass returns 30.
\<close>

theorem C7_consecutive_accidentals_witness:
  "CHORD_MAX_CONSECUTIVE_ACCIDENTALS sampleConstants = of_nat 3
   \<and> (1 :: nat) \<le> 3
   \<and> consecutiveXOffsets sampleConstants sampleAccidentalChord 0 0 = [- 10, - 20, - 30, - 10, - 20]
   \<and> snd (chordOffsetConsecutiveAccidentals sampleConstants sampleAccidentalChord)
       = - Min (set (0 # consecutiveXOffsets sampleConstants sampleAccidentalChord 0 0))
   \<and> snd (chordOffsetConsecutiveAccidentals sampleConstants sampleAccidentalChord) = 30
   \<and> consecutiveXOffsets sampleConstants sampleAccidentalChord 0 0 ! (length ([] :: NoteEntry list) + 3)
       = of_nat (3 mod 3 + 1) * ACCIDENTAL_OFFSET_X sampleConstants"
proof -
  have h1: "CHORD_MAX_CONSECUTIVE_ACCIDENTALS sampleConstants = of_nat 3"
    by (simp add: sampleConstants_def)
  have h2: "(1 :: nat) \<le> 3" by simp
  note t = C7_consecutive_accidentals [OF h1 h2, where ns = sampleAccidentalChord
      and pre = "[]" and run = sampleAccidentalChord and post = "[]" and j = 3]
  from t have ret: "snd (chordOffsetConsecutiveAccidentals sampleConstants sampleAccidentalChord)
       = - Min (set (0 # consecutiveXOffsets sampleConstants sampleAccidentalChord 0 0))"
    by blast
  have all: "\<forall>e \<in> set sampleAccidentalChord. accidental (entryNote e) \<noteq> None"
    using sampleAccidentalChord_eval by (simp add: list_all_iff)
  have len: "(3 :: nat) < length sampleAccidentalChord"
    using sampleAccidentalChord_eval by simp
  from t all len
  have run: "consecutiveXOffsets sampleConstants sampleAccidentalChord 0 0
        ! (length ([] :: NoteEntry list) + 3)
       = of_nat (3 mod 3 + 1) * ACCIDENTAL_OFFSET_X sampleConstants"
    by simp
  from h1 h2 ret run sampleAccidentalChord_eval show ?thesis by simp
qed

end
